theory Spec2Isabelle
  imports Main "HOL-Library.Sublist"
begin

section \<open>The overlay filesystem layer: data model\<close>

text \<open>
  The development embeds the overlay engine of the \<^verbatim>\<open>fs\<close> package: the mount
  operations (\<^verbatim>\<open>overlayMountSourceOperations\<close>) and the inode operations
  (\<^verbatim>\<open>overlayLookup\<close>, \<^verbatim>\<open>overlayRemove\<close>, \<^verbatim>\<open>overlayRename\<close>,
  \<^verbatim>\<open>overlayGetxattr\<close>, \<^verbatim>\<open>overlayListxattr\<close>, \<^verbatim>\<open>overlayCheck\<close>).

  Pointers are addresses into explicit heaps, a nil pointer is \<open>None\<close>. A Go function that
  returns \<^verbatim>\<open>(value, error)\<close> returns the pair here, the nil error being \<open>None\<close>. A panic is
  the outcome \<open>Panic\<close>. Execution is sequential: \<^verbatim>\<open>copyMu\<close> and its
  \<^verbatim>\<open>RLock\<close>/\<^verbatim>\<open>RUnlock\<close> calls have no counterpart.
\<close>

type_synonym addr = nat

datatype errno = ENOENT | ENODATA | ENOTEMPTY | EXDEV | EOPNOTSUPP | EACCES | EIO | EINVAL | EPERM

datatype 'a outcome = Return 'a | Panic string

text \<open>
  Modelled from the spec: the file types of \<^verbatim>\<open>StableAttr.Type\<close> and \<^verbatim>\<open>IsDir\<close>, whose
  declarations are outside the source at hand. The source names \<^verbatim>\<open>Directory\<close> and
  \<^verbatim>\<open>SpecialDirectories\<close> ("Allow SpecialDirectories and Directories to merge"); the
  spec: "directories may additionally merge with any directory-like special type".
\<close>

datatype InodeType =
  RegularFile | SpecialFile | Directory | SpecialDirectory | Symlink | Pipe | Socket
  | CharacterDevice | BlockDevice | Anonymous

record StableAttr =
  Type :: InodeType
  DeviceID :: nat
  InodeID :: nat
  BlockSize :: nat

definition IsDir :: "StableAttr \<Rightarrow> bool" where
  "IsDir sattr = (Type sattr = Directory \<or> Type sattr = SpecialDirectory)"

record PermMask =
  Read :: bool
  Write :: bool
  Execute :: bool

text \<open>
  Modelled from the spec: the Dirent, whose declaration is outside the source at hand ("a
  name bound to an Inode within a parent directory"); a negative Dirent ("name confirmed
  absent") has no Inode, which is what \<^verbatim>\<open>IsNegative\<close> tests.
\<close>

record Dirent =
  name :: string
  Inode :: "addr option"

definition IsNegative :: "Dirent \<Rightarrow> bool" where
  "IsNegative d = (Inode d = None)"

definition NewDirent :: "addr \<Rightarrow> string \<Rightarrow> Dirent" where
  "NewDirent i nm = \<lparr>name = nm, Inode = Some i\<rparr>"

definition NewNegativeDirent :: "string \<Rightarrow> Dirent" where
  "NewNegativeDirent nm = \<lparr>name = nm, Inode = None\<rparr>"

text \<open>\<^verbatim>\<open>overlayEntry\<close>: the optional upper and lower Inode and the sticky flag.\<close>

record overlayEntry =
  lowerExists :: bool
  lower :: "addr option"
  upper :: "addr option"

text \<open>
  The part of \<^verbatim>\<open>Inode\<close> the overlay code reads and writes directly: the stable
  attributes, the mount it belongs to, the pointer to the overlay entry (nil for an inode
  that is not an overlay inode) and the reference count behind \<^verbatim>\<open>IncRef\<close>/\<^verbatim>\<open>DecRef\<close>.
\<close>

record Inode =
  StableAttr :: StableAttr
  MountSource :: nat
  overlay :: "addr option"
  refs :: int

text \<open>
  Modelled from the spec: the Backing Filesystem Capability ("an abstract capability each
  layer (upper, lower) must provide: lookup, create, remove, rename, read/write link,
  extended attributes, permission check, stat. Consumed, not implemented, by the core").
  The drivers are outside the source at hand, so every inode of a layer carries the table of
  its answers: what \<^verbatim>\<open>Lookup\<close>, \<^verbatim>\<open>Getxattr\<close>, \<^verbatim>\<open>Listxattr\<close> and \<^verbatim>\<open>check\<close>
  return on it (any pair of value and error), and with which error, if any, a mutation of it
  fails. A mutation that succeeds rewrites the table (see \<open>Inode_Setxattr\<close>,
  \<open>Inode_Remove\<close>, \<open>Inode_Rename\<close> below).
\<close>

record InodeOperations =
  Lookup :: "string \<Rightarrow> Dirent option \<times> errno option"
  Getxattr :: "string \<Rightarrow> string \<times> errno option"
  Listxattr :: "string list \<times> errno option"
  check :: "PermMask \<Rightarrow> errno option"
  Setxattr_err :: "string \<Rightarrow> string \<Rightarrow> errno option"
  Remove_err :: "string \<Rightarrow> errno option"
  RemoveDirectory_err :: "string \<Rightarrow> errno option"
  Rename_err :: "addr \<Rightarrow> string \<Rightarrow> addr \<Rightarrow> string \<Rightarrow> bool \<Rightarrow> errno option"

text \<open>Every call the overlay delegates is recorded, in order, in the log of the state.\<close>

datatype call =
  Call_Lookup addr string
  | Call_Getxattr addr string
  | Call_Listxattr addr
  | Call_check addr PermMask
  | Call_Setxattr addr string string
  | Call_Remove addr string
  | Call_RemoveDirectory addr string
  | Call_Rename addr string addr string bool
  | Call_copyUp Dirent
  | Call_readdirOne Dirent
  | Call_DecRef Dirent

record kernel =
  inodes :: "addr \<Rightarrow> Inode"
  overlays :: "addr \<Rightarrow> overlayEntry"
  ops :: "addr \<Rightarrow> InodeOperations"
  next_inode :: addr
  next_overlay :: addr
  calls :: "call list"

text \<open>
  The functions and constants of the package that the overlay code calls and that are
  outside the source at hand are parameters of the model:
  \<^item> \<open>XattrOverlayPrefix\<close>, the reserved namespace of the overlay's own attributes, and
    \<open>XattrOverlayWhiteoutPrefix\<close>, with \<^verbatim>\<open>XattrOverlayWhiteout(name)\<close> the prefix followed
    by the name (the spec: "keyed by a reserved namespace plus the masked child's name");
  \<^item> \<open>newOverlayEntry_err\<close>, the error with which \<^verbatim>\<open>newOverlayEntry\<close> refuses a pair of
    inodes, if it does;
  \<^item> \<open>doCopyUp\<close>, what copy-up does to an entry that has no upper inode yet;
  \<^item> \<open>readdirOne\<close>, the children of a directory and the error of reading them.
\<close>

record env =
  XattrOverlayPrefix :: string
  XattrOverlayWhiteoutPrefix :: string
  newOverlayEntry_err :: "kernel \<Rightarrow> addr option \<Rightarrow> addr option \<Rightarrow> bool \<Rightarrow> errno option"
  doCopyUp :: "Dirent \<Rightarrow> kernel \<Rightarrow> errno option \<times> kernel"
  readdirOne :: "kernel \<Rightarrow> Dirent \<Rightarrow> string list \<times> errno option"

definition XattrOverlayWhiteout :: "env \<Rightarrow> string \<Rightarrow> string" where
  "XattrOverlayWhiteout e nm = XattrOverlayWhiteoutPrefix e @ nm"

text \<open>Go's \<^verbatim>\<open>strings.HasPrefix(s, prefix)\<close>: \<open>s\<close> begins with \<open>prefix\<close>.\<close>

definition HasPrefix :: "string \<Rightarrow> string \<Rightarrow> bool" where
  "HasPrefix s pfx = (length pfx \<le> length s \<and> take (length pfx) s = pfx)"

definition nil_deref :: "'a outcome" where
  "nil_deref = Panic ''invalid memory address or nil pointer dereference''"

definition log_call :: "call \<Rightarrow> kernel \<Rightarrow> kernel" where
  "log_call c s = s\<lparr>calls := calls s @ [c]\<rparr>"

section \<open>Delegated calls\<close>

text \<open>
  Modelled from the spec: the methods of \<^verbatim>\<open>Inode\<close> through which the overlay reaches a
  layer (\<^verbatim>\<open>Getxattr\<close>, \<^verbatim>\<open>Listxattr\<close>, and below \<^verbatim>\<open>check\<close> and \<^verbatim>\<open>Lookup\<close>),
  which are outside the source at hand. Each returns the answer of the Inode's table and
  records the call in the log.
\<close>

definition Inode_Getxattr :: "addr \<Rightarrow> string \<Rightarrow> kernel \<Rightarrow> (string \<times> errno option) \<times> kernel" where
  "Inode_Getxattr i nm s = (Getxattr (ops s i) nm, log_call (Call_Getxattr i nm) s)"

definition Inode_Listxattr :: "addr \<Rightarrow> kernel \<Rightarrow> (string list \<times> errno option) \<times> kernel" where
  "Inode_Listxattr i s = (Listxattr (ops s i), log_call (Call_Listxattr i) s)"

section \<open>Extended attributes\<close>

text \<open>
  \<^verbatim>\<open>overlayGetxattr\<close>. The guard is \<^verbatim>\<open>strings.HasPrefix(XattrOverlayPrefix, name)\<close>, with
  the arguments in this order.
\<close>

definition overlayGetxattr ::
  "env \<Rightarrow> addr \<Rightarrow> string \<Rightarrow> kernel \<Rightarrow> (string \<times> errno option) outcome \<times> kernel" where
  "overlayGetxattr e ov nm s =
     (if HasPrefix (XattrOverlayPrefix e) nm then (Return ('''', Some ENODATA), s)
      else (case upper (overlays s ov) of
              Some u \<Rightarrow> (let (r, s1) = Inode_Getxattr u nm s in (Return r, s1))
            | None \<Rightarrow>
                (case lower (overlays s ov) of
                   Some l \<Rightarrow> (let (r, s1) = Inode_Getxattr l nm s in (Return r, s1))
                 | None \<Rightarrow> (nil_deref, s))))"

text \<open>
  \<^verbatim>\<open>overlayListxattr\<close>. The map of names is a list without repetition; the loop visits
  every key once and deletes the keys the guard selects.
\<close>

definition delete_overlay_names :: "env \<Rightarrow> string list \<Rightarrow> string list" where
  "delete_overlay_names e names =
     fold (\<lambda>nm m. if HasPrefix (XattrOverlayPrefix e) nm then removeAll nm m else m) names names"

definition overlayListxattr ::
  "env \<Rightarrow> addr \<Rightarrow> kernel \<Rightarrow> (string list \<times> errno option) outcome \<times> kernel" where
  "overlayListxattr e ov s =
     (case upper (overlays s ov) of
        Some u \<Rightarrow>
          (let ((names, err), s1) = Inode_Listxattr u s
           in (Return (delete_overlay_names e names, err), s1))
      | None \<Rightarrow>
          (case lower (overlays s ov) of
             Some l \<Rightarrow>
               (let ((names, err), s1) = Inode_Listxattr l s
                in (Return (delete_overlay_names e names, err), s1))
           | None \<Rightarrow> (nil_deref, s)))"

section \<open>Permission check\<close>

definition Inode_check :: "addr \<Rightarrow> PermMask \<Rightarrow> kernel \<Rightarrow> errno option \<times> kernel" where
  "Inode_check i p s = (check (ops s i) p, log_call (Call_check i p) s)"

text \<open>\<^verbatim>\<open>overlayCheck\<close>.\<close>

definition overlayCheck :: "addr \<Rightarrow> PermMask \<Rightarrow> kernel \<Rightarrow> errno option outcome \<times> kernel" where
  "overlayCheck ov p s =
     (case upper (overlays s ov) of
        Some u \<Rightarrow> (let (err, s1) = Inode_check u p s in (Return err, s1))
      | None \<Rightarrow>
          (let p1 = (if Write p then p\<lparr>Write := False, Read := True\<rparr> else p)
           in (case lower (overlays s ov) of
                 Some l \<Rightarrow> (let (err, s1) = Inode_check l p1 s in (Return err, s1))
               | None \<Rightarrow> (nil_deref, s))))"

section \<open>Mount operations\<close>

text \<open>
  Modelled from the spec: the mount-level call "revalidate(name, parent, child) -> bool" of
  a layer's \<^verbatim>\<open>MountSource\<close>, which is outside the source at hand: the answer of the layer
  to a name and two Inode pointers, each of which may be nil.
\<close>

record MountSource_ops =
  MS_Revalidate :: "string \<Rightarrow> addr option \<Rightarrow> addr option \<Rightarrow> bool"

text \<open>\<^verbatim>\<open>overlayMountSourceOperations\<close>, with its fields \<^verbatim>\<open>upper\<close> and \<^verbatim>\<open>lower\<close>.\<close>

record overlayMountSourceOperations =
  upper_msrc :: MountSource_ops
  lower_msrc :: MountSource_ops

text \<open>\<^verbatim>\<open>overlayMountSourceOperations.Revalidate\<close>.\<close>

definition Revalidate ::
  "overlayMountSourceOperations \<Rightarrow> kernel \<Rightarrow> string \<Rightarrow> addr \<Rightarrow> addr \<Rightarrow> bool outcome" where
  "Revalidate m s nm parent child =
     (case overlay (inodes s child) of
        None \<Rightarrow> Panic ''overlay cannot revalidate inode that is not an overlay''
      | Some co \<Rightarrow>
          (case overlay (inodes s parent) of
             None \<Rightarrow> Panic ''trying to revalidate an overlay inode but the parent is not an overlay''
           | Some po \<Rightarrow>
               if lower (overlays s co) \<noteq> None \<and>
                  MS_Revalidate (lower_msrc m) nm (lower (overlays s po)) (lower (overlays s co))
               then Panic ''an overlay cannot revalidate file objects from the lower fs''
               else if upper (overlays s co) = None then Return False
               else Return (MS_Revalidate (upper_msrc m) nm
                              (upper (overlays s po)) (upper (overlays s co)))))"

section \<open>Whiteouts\<close>

text \<open>
  Modelled from the spec: the mutations of a layer (\<^verbatim>\<open>InodeOperations.Setxattr\<close>,
  \<^verbatim>\<open>Remove\<close>, \<^verbatim>\<open>RemoveDirectory\<close>, \<^verbatim>\<open>Rename\<close> of the Backing Filesystem
  Capability), which are outside the source at hand. Each records the call and fails with
  the error of the Inode's table, if there is one. \<^verbatim>\<open>Setxattr\<close> that succeeds makes
  \<^verbatim>\<open>Getxattr\<close> of the name return the value and lists the name; \<^verbatim>\<open>Remove\<close> and
  \<^verbatim>\<open>RemoveDirectory\<close> that succeed make \<^verbatim>\<open>Lookup\<close> of the name return "no such
  file"; \<^verbatim>\<open>Rename\<close> that succeeds moves the entry, and a nil directory given to it is a
  nil dereference.
\<close>

definition Inode_Setxattr :: "addr \<Rightarrow> string \<Rightarrow> string \<Rightarrow> kernel \<Rightarrow> errno option \<times> kernel" where
  "Inode_Setxattr i nm v s =
     (let s1 = log_call (Call_Setxattr i nm v) s
      in (case Setxattr_err (ops s i) nm v of
            Some err \<Rightarrow> (Some err, s1)
          | None \<Rightarrow>
              (None, s1\<lparr>ops := (ops s)(i := (ops s i)
                 \<lparr>Getxattr := (Getxattr (ops s i))(nm := (v, None)),
                  Listxattr := (List.insert nm (fst (Listxattr (ops s i))),
                                snd (Listxattr (ops s i)))\<rparr>)\<rparr>)))"

definition Inode_Remove :: "addr \<Rightarrow> string \<Rightarrow> kernel \<Rightarrow> errno option \<times> kernel" where
  "Inode_Remove i nm s =
     (let s1 = log_call (Call_Remove i nm) s
      in (case Remove_err (ops s i) nm of
            Some err \<Rightarrow> (Some err, s1)
          | None \<Rightarrow>
              (None, s1\<lparr>ops := (ops s)(i := (ops s i)
                 \<lparr>Lookup := (Lookup (ops s i))(nm := (None, Some ENOENT))\<rparr>)\<rparr>)))"

definition Inode_RemoveDirectory :: "addr \<Rightarrow> string \<Rightarrow> kernel \<Rightarrow> errno option \<times> kernel" where
  "Inode_RemoveDirectory i nm s =
     (let s1 = log_call (Call_RemoveDirectory i nm) s
      in (case RemoveDirectory_err (ops s i) nm of
            Some err \<Rightarrow> (Some err, s1)
          | None \<Rightarrow>
              (None, s1\<lparr>ops := (ops s)(i := (ops s i)
                 \<lparr>Lookup := (Lookup (ops s i))(nm := (None, Some ENOENT))\<rparr>)\<rparr>)))"

definition move_entry ::
  "addr \<Rightarrow> string \<Rightarrow> addr \<Rightarrow> string \<Rightarrow> (addr \<Rightarrow> InodeOperations) \<Rightarrow> (addr \<Rightarrow> InodeOperations)" where
  "move_entry a oldName b newName t =
     (let moved = (case fst (Lookup (t a) oldName) of
                     None \<Rightarrow> (None, snd (Lookup (t a) oldName))
                   | Some d \<Rightarrow> (Some (d\<lparr>name := newName\<rparr>), snd (Lookup (t a) oldName)));
          t1 = t(a := (t a)\<lparr>Lookup := (Lookup (t a))(oldName := (None, Some ENOENT))\<rparr>)
      in t1(b := (t1 b)\<lparr>Lookup := (Lookup (t1 b))(newName := moved)\<rparr>))"

definition Inode_Rename ::
  "addr \<Rightarrow> addr option \<Rightarrow> string \<Rightarrow> addr option \<Rightarrow> string \<Rightarrow> bool \<Rightarrow> kernel
     \<Rightarrow> errno option outcome \<times> kernel" where
  "Inode_Rename recv oldParent oldName newParent newName replacement s =
     (case oldParent of
        None \<Rightarrow> (nil_deref, s)
      | Some a \<Rightarrow>
          (case newParent of
             None \<Rightarrow> (nil_deref, s)
           | Some b \<Rightarrow>
               (let s1 = log_call (Call_Rename a oldName b newName replacement) s
                in (case Rename_err (ops s recv) a oldName b newName replacement of
                      Some err \<Rightarrow> (Return (Some err), s1)
                    | None \<Rightarrow>
                        (Return None, s1\<lparr>ops := move_entry a oldName b newName (ops s)\<rparr>)))))"

text \<open>\<^verbatim>\<open>overlayHasWhiteout\<close> and \<^verbatim>\<open>overlayCreateWhiteout\<close>.\<close>

definition overlayHasWhiteout :: "env \<Rightarrow> addr \<Rightarrow> string \<Rightarrow> kernel \<Rightarrow> bool \<times> kernel" where
  "overlayHasWhiteout e parent nm s =
     (let ((buf, err), s1) = Inode_Getxattr parent (XattrOverlayWhiteout e nm) s
      in (err = None \<and> buf = ''y'', s1))"

definition overlayCreateWhiteout :: "env \<Rightarrow> addr \<Rightarrow> string \<Rightarrow> kernel \<Rightarrow> errno option \<times> kernel" where
  "overlayCreateWhiteout e parent nm s = Inode_Setxattr parent (XattrOverlayWhiteout e nm) ''y'' s"

section \<open>References and construction\<close>

text \<open>
  Modelled from the spec: reference counting ("strict acquire/release: increment on every
  new holder, decrement exactly once when a holder is done"). \<^verbatim>\<open>IncRef\<close> and \<^verbatim>\<open>DecRef\<close>
  of an Inode move its count; the release of a Dirent is recorded in the log, since what it
  does to the Dirent's own reference on the Inode is decided outside the source at hand.
\<close>

definition IncRef :: "addr \<Rightarrow> kernel \<Rightarrow> kernel" where
  "IncRef i s = s\<lparr>inodes := (inodes s)(i := (inodes s i)\<lparr>refs := refs (inodes s i) + 1\<rparr>)\<rparr>"

definition DecRef :: "addr \<Rightarrow> kernel \<Rightarrow> kernel" where
  "DecRef i s = s\<lparr>inodes := (inodes s)(i := (inodes s i)\<lparr>refs := refs (inodes s i) - 1\<rparr>)\<rparr>"

definition Dirent_DecRef :: "Dirent \<Rightarrow> kernel \<Rightarrow> kernel" where
  "Dirent_DecRef d s = log_call (Call_DecRef d) s"

definition Inode_Lookup :: "addr \<Rightarrow> string \<Rightarrow> kernel \<Rightarrow> (Dirent option \<times> errno option) \<times> kernel" where
  "Inode_Lookup i nm s = (Lookup (ops s i) nm, log_call (Call_Lookup i nm) s)"

text \<open>
  Modelled from the spec: \<^verbatim>\<open>newOverlayEntry\<close> and \<^verbatim>\<open>newOverlayInode\<close>, which are outside
  the source at hand ("an overlay entry is created exactly once, at successful merge/lookup
  or at direct creation"). The new entry holds the three values it is given. The new Inode
  points to the entry, belongs to the given mount, starts with one reference, and presents
  the stable attributes of the entry's upper Inode, or of its lower Inode when there is no
  upper one; an entry with neither cannot be given an Inode.
\<close>

definition newOverlayEntry ::
  "env \<Rightarrow> addr option \<Rightarrow> addr option \<Rightarrow> bool \<Rightarrow> kernel \<Rightarrow> (errno + addr) \<times> kernel" where
  "newOverlayEntry e up lo lowerEx s =
     (case newOverlayEntry_err e s up lo lowerEx of
        Some err \<Rightarrow> (Inl err, s)
      | None \<Rightarrow>
          (Inr (next_overlay s),
           s\<lparr>overlays := (overlays s)(next_overlay s :=
                 \<lparr>lowerExists = lowerEx, lower = lo, upper = up\<rparr>),
             next_overlay := Suc (next_overlay s)\<rparr>))"

definition newOverlayInode :: "addr \<Rightarrow> nat \<Rightarrow> kernel \<Rightarrow> addr outcome \<times> kernel" where
  "newOverlayInode entry msrc s =
     (case (case upper (overlays s entry) of
              Some u \<Rightarrow> Some u
            | None \<Rightarrow> lower (overlays s entry)) of
        None \<Rightarrow> (nil_deref, s)
      | Some src \<Rightarrow>
          (Return (next_inode s),
           s\<lparr>inodes := (inodes s)(next_inode s :=
                 \<lparr>StableAttr = StableAttr (inodes s src), MountSource = msrc,
                  overlay = Some entry, refs = 1\<rparr>),
             next_inode := Suc (next_inode s)\<rparr>))"

section \<open>Lookup\<close>

text \<open>
  \<^verbatim>\<open>overlayLookup\<close> returns the Dirent, the flag "found in the upper layer" and the error.
  The function is embedded in the parts it is written in (the upper layer, the lower layer,
  the merge); a part either returns from the function (\<open>Done\<close>) or hands its local
  variables to the next part (\<open>Next\<close>). The calls of \<^verbatim>\<open>log.Infof\<close> are left out.
\<close>

type_synonym lookup_result = "Dirent option \<times> bool \<times> errno option"

datatype ('a, 'b) step = Done 'a | Next 'b

text \<open>
  The end of both paths that build an entry: \<^verbatim>\<open>newOverlayEntry\<close>, the release of the
  references taken when it fails, then \<^verbatim>\<open>NewDirent(newOverlayInode(...), name)\<close>. The
  path under a whiteout calls it with no lower Inode and \<^verbatim>\<open>lowerExists = false\<close>.
\<close>

definition overlayLookup_entry ::
  "env \<Rightarrow> addr option \<Rightarrow> addr option \<Rightarrow> bool \<Rightarrow> addr \<Rightarrow> string \<Rightarrow> kernel
     \<Rightarrow> lookup_result outcome \<times> kernel" where
  "overlayLookup_entry e upperInode lowerInode lowerEx inode nm s =
     (case newOverlayEntry e upperInode lowerInode lowerEx s of
        (Inl err, s1) \<Rightarrow>
          (let s2 = (case upperInode of Some u \<Rightarrow> DecRef u s1 | None \<Rightarrow> s1);
               s3 = (case lowerInode of Some l \<Rightarrow> DecRef l s2 | None \<Rightarrow> s2)
           in (Return (None, False, Some err), s3))
      | (Inr entry, s1) \<Rightarrow>
          (case newOverlayInode entry (MountSource (inodes s1 inode)) s1 of
             (Panic msg, s2) \<Rightarrow> (Panic msg, s2)
           | (Return i, s2) \<Rightarrow> (Return (Some (NewDirent i nm), upperInode \<noteq> None, None), s2)))"

text \<open>
  The upper layer: the lookup in \<^verbatim>\<open>parent.upper\<close> and the whiteout check. It hands on
  \<^verbatim>\<open>upperInode\<close> and \<^verbatim>\<open>negativeUpperChild\<close>.
\<close>

definition overlayLookup_upper ::
  "env \<Rightarrow> overlayEntry \<Rightarrow> addr \<Rightarrow> string \<Rightarrow> kernel
     \<Rightarrow> (lookup_result outcome, addr option \<times> bool) step \<times> kernel" where
  "overlayLookup_upper e parent inode nm s =
     (case upper parent of
        None \<Rightarrow> (Next (None, False), s)
      | Some pu \<Rightarrow>
          (let ((child, err), s1) = Inode_Lookup pu nm s
           in if err \<noteq> None \<and> err \<noteq> Some ENOENT then (Done (Return (None, False, err)), s1)
              else
                (let (upperInode, negativeUpperChild, s2) =
                       (case child of
                          None \<Rightarrow> (None, False, s1)
                        | Some c \<Rightarrow>
                            (case Inode c of
                               None \<Rightarrow> (None, True, Dirent_DecRef c s1)
                             | Some ui \<Rightarrow> (Some ui, False, Dirent_DecRef c (IncRef ui s1))));
                     (whiteout, s3) = overlayHasWhiteout e pu nm s2
                 in if whiteout then
                      (case upperInode of
                         None \<Rightarrow>
                           if negativeUpperChild
                           then (Done (Return (Some (NewNegativeDirent nm), False, None)), s3)
                           else (Done (Return (None, False, Some ENOENT)), s3)
                       | Some ui \<Rightarrow>
                           (let (r, s4) = overlayLookup_entry e (Some ui) None False inode nm s3
                            in (Done r, s4)))
                    else (Next (upperInode, negativeUpperChild), s3))))"

text \<open>The lower layer: the lookup in \<^verbatim>\<open>parent.lower\<close>. It hands on \<^verbatim>\<open>lowerInode\<close>.\<close>

definition overlayLookup_lower ::
  "overlayEntry \<Rightarrow> string \<Rightarrow> addr option \<Rightarrow> kernel
     \<Rightarrow> (lookup_result outcome, addr option) step \<times> kernel" where
  "overlayLookup_lower parent nm upperInode s =
     (case lower parent of
        None \<Rightarrow> (Next None, s)
      | Some pl \<Rightarrow>
          (let ((child, err), s1) = Inode_Lookup pl nm s
           in if err \<noteq> None \<and> err \<noteq> Some ENOENT
              then (Done (Return (None, False, err)),
                    (case upperInode of Some ui \<Rightarrow> DecRef ui s1 | None \<Rightarrow> s1))
              else
                (case child of
                   None \<Rightarrow> (Next None, s1)
                 | Some c \<Rightarrow>
                     (case Inode c of
                        None \<Rightarrow> (Next None, Dirent_DecRef c s1)
                      | Some ci \<Rightarrow>
                          (case upperInode of
                             None \<Rightarrow> (Next (Some ci), Dirent_DecRef c (IncRef ci s1))
                           | Some ui \<Rightarrow>
                               if Type (StableAttr (inodes s1 ui)) = Type (StableAttr (inodes s1 ci))
                                  \<or> (IsDir (StableAttr (inodes s1 ui))
                                      \<and> IsDir (StableAttr (inodes s1 ci)))
                               then (Next (Some ci), Dirent_DecRef c (IncRef ci s1))
                               else (Next None, Dirent_DecRef c s1))))))"

text \<open>
  The merge: nothing found, or the stable attributes of the lower Inode are given to the
  upper one, the lower reference is dropped for what is not a directory, and the entry is
  built.
\<close>

definition steal_attributes :: "addr \<Rightarrow> addr \<Rightarrow> kernel \<Rightarrow> kernel" where
  "steal_attributes ui li s =
     s\<lparr>inodes := (inodes s)(ui := (inodes s ui)\<lparr>StableAttr := StableAttr (inodes s li)\<rparr>)\<rparr>"

definition overlayLookup_merge ::
  "env \<Rightarrow> addr \<Rightarrow> string \<Rightarrow> addr option \<Rightarrow> addr option \<Rightarrow> bool \<Rightarrow> kernel
     \<Rightarrow> lookup_result outcome \<times> kernel" where
  "overlayLookup_merge e inode nm upperInode lowerInode negativeUpperChild s =
     (if upperInode = None \<and> lowerInode = None then
        (if negativeUpperChild then (Return (Some (NewNegativeDirent nm), False, None), s)
         else (Return (None, False, Some ENOENT), s))
      else
        (let lowerEx = (lowerInode \<noteq> None);
             (lowerInode1, s1) =
               (case upperInode of
                  None \<Rightarrow> (lowerInode, s)
                | Some ui \<Rightarrow>
                    (case lowerInode of
                       None \<Rightarrow> (lowerInode, s)
                     | Some li \<Rightarrow>
                         (let s0 = steal_attributes ui li s
                          in if \<not> IsDir (StableAttr (inodes s0 ui)) then (None, DecRef li s0)
                             else (Some li, s0))))
         in overlayLookup_entry e upperInode lowerInode1 lowerEx inode nm s1))"

definition overlayLookup ::
  "env \<Rightarrow> addr \<Rightarrow> addr \<Rightarrow> string \<Rightarrow> kernel \<Rightarrow> lookup_result outcome \<times> kernel" where
  "overlayLookup e parent inode nm s =
     (if upper (overlays s parent) = None \<and> lower (overlays s parent) = None
      then (Panic ''invalid overlayEntry, needs at least one Inode'', s)
      else
        (case overlayLookup_upper e (overlays s parent) inode nm s of
           (Done r, s1) \<Rightarrow> (r, s1)
         | (Next (upperInode, negativeUpperChild), s1) \<Rightarrow>
             (case overlayLookup_lower (overlays s parent) nm upperInode s1 of
                (Done r, s2) \<Rightarrow> (r, s2)
              | (Next lowerInode, s2) \<Rightarrow>
                  overlayLookup_merge e inode nm upperInode lowerInode negativeUpperChild s2)))"

section \<open>Copy-up\<close>

text \<open>
  Modelled from the spec: \<^verbatim>\<open>copyUpLockedForRename\<close>, which is outside the source at hand
  ("If \<^verbatim>\<open>upper\<close> is already present, this is a no-op. Otherwise: create a new object in the
  upper layer [...] and atomically install it as \<^verbatim>\<open>upper\<close> on the entry"). What it does to
  an entry without an upper Inode is the parameter \<open>doCopyUp\<close>. Every call is logged.
\<close>

definition copyUpLockedForRename :: "env \<Rightarrow> Dirent \<Rightarrow> kernel \<Rightarrow> errno option outcome \<times> kernel" where
  "copyUpLockedForRename e d s =
     (let s1 = log_call (Call_copyUp d) s
      in (case Inode d of
            None \<Rightarrow> (nil_deref, s1)
          | Some i \<Rightarrow>
              (case overlay (inodes s1 i) of
                 None \<Rightarrow> (nil_deref, s1)
               | Some ov \<Rightarrow>
                   if upper (overlays s1 ov) \<noteq> None then (Return None, s1)
                   else (let (err, s2) = doCopyUp e d s1 in (Return err, s2)))))"

section \<open>Remove\<close>

text \<open>
  \<^verbatim>\<open>overlayRemove\<close>. \<open>ov\<close> is the entry \<^verbatim>\<open>o\<close> of the parent directory; the entry of the
  child is read through \<^verbatim>\<open>child.Inode.overlay\<close>.
\<close>

definition overlayRemove_upper ::
  "addr \<Rightarrow> addr \<Rightarrow> addr \<Rightarrow> Dirent \<Rightarrow> kernel \<Rightarrow> errno option outcome \<times> kernel" where
  "overlayRemove_upper ov ci co child s =
     (if upper (overlays s co) \<noteq> None then
        (case upper (overlays s ov) of
           None \<Rightarrow> (nil_deref, s)
         | Some pu \<Rightarrow>
             if Type (StableAttr (inodes s ci)) = Directory
             then (let (err, s1) = Inode_RemoveDirectory pu (name child) s in (Return err, s1))
             else (let (err, s1) = Inode_Remove pu (name child) s in (Return err, s1)))
      else (Return None, s))"

definition overlayRemove ::
  "env \<Rightarrow> addr \<Rightarrow> Dirent \<Rightarrow> Dirent \<Rightarrow> kernel \<Rightarrow> errno option outcome \<times> kernel" where
  "overlayRemove e ov parent child s =
     (case copyUpLockedForRename e parent s of
        (Panic msg, s1) \<Rightarrow> (Panic msg, s1)
      | (Return (Some err), s1) \<Rightarrow> (Return (Some err), s1)
      | (Return None, s1) \<Rightarrow>
          (case Inode child of
             None \<Rightarrow> (nil_deref, s1)
           | Some ci \<Rightarrow>
               (case overlay (inodes s1 ci) of
                  None \<Rightarrow> (nil_deref, s1)
                | Some co \<Rightarrow>
                    (case overlayRemove_upper ov ci co child s1 of
                       (Panic msg, s2) \<Rightarrow> (Panic msg, s2)
                     | (Return (Some err), s2) \<Rightarrow> (Return (Some err), s2)
                     | (Return None, s2) \<Rightarrow>
                         if lowerExists (overlays s2 co) then
                           (case upper (overlays s2 ov) of
                              None \<Rightarrow> (nil_deref, s2)
                            | Some pu \<Rightarrow>
                                (let (err, s3) = overlayCreateWhiteout e pu (name child) s2
                                 in (Return err, s3)))
                         else (Return None, s2)))))"

section \<open>Rename\<close>

definition Dirent_overlay :: "kernel \<Rightarrow> Dirent \<Rightarrow> addr option outcome" where
  "Dirent_overlay s d =
     (case Inode d of None \<Rightarrow> nil_deref | Some i \<Rightarrow> Return (overlay (inodes s i)))"

definition Call_readdirOne_in :: "env \<Rightarrow> Dirent \<Rightarrow> kernel \<Rightarrow> (string list \<times> errno option) \<times> kernel" where
  "Call_readdirOne_in e d s = (readdirOne e s d, log_call (Call_readdirOne d) s)"

text \<open>
  The check of the replaced name, the part of \<^verbatim>\<open>overlayRename\<close> under
  \<^verbatim>\<open>if replacement\<close>. It returns from the function or hands on the flag \<^verbatim>\<open>replacement\<close>.
\<close>

definition overlayRename_replaced ::
  "env \<Rightarrow> addr \<Rightarrow> addr \<Rightarrow> string \<Rightarrow> bool \<Rightarrow> kernel
     \<Rightarrow> (errno option outcome, bool) step \<times> kernel" where
  "overlayRename_replaced e newOv newInode newName replacement s =
     (if replacement then
        (case overlayLookup e newOv newInode newName s of
           (Panic msg, s1) \<Rightarrow> (Done (Panic msg), s1)
         | (Return (replaced, inUpper, err), s1) \<Rightarrow>
             if err \<noteq> None \<and> err \<noteq> Some ENOENT then (Done (Return err), s1)
             else if err = None then
               (let replacement1 = (if \<not> inUpper then False else replacement)
                in (case replaced of
                      None \<Rightarrow> (Done nil_deref, s1)
                    | Some rd \<Rightarrow>
                        (case Inode rd of
                           None \<Rightarrow> (Next replacement1, Dirent_DecRef rd s1)
                         | Some ri \<Rightarrow>
                             if IsDir (StableAttr (inodes s1 ri)) then
                               (let ((children, err1), s2) = Call_readdirOne_in e rd s1
                                in if err1 \<noteq> None then (Done (Return err1), Dirent_DecRef rd s2)
                                   else if length children > 0
                                   then (Done (Return (Some ENOTEMPTY)), Dirent_DecRef rd s2)
                                   else (Next replacement1, Dirent_DecRef rd s2))
                             else (Next replacement1, Dirent_DecRef rd s1))))
             else (Next replacement, s1))
      else (Next replacement, s))"

text \<open>
  The rest of \<^verbatim>\<open>overlayRename\<close>: the two copy-ups, the rename delegated to the upper
  layer and the whiteout at the old name.
\<close>

definition overlayRename_move ::
  "env \<Rightarrow> addr \<Rightarrow> Dirent \<Rightarrow> Dirent \<Rightarrow> Dirent \<Rightarrow> string \<Rightarrow> bool \<Rightarrow> kernel
     \<Rightarrow> errno option outcome \<times> kernel" where
  "overlayRename_move e ov oldParent renamed newParent newName replacement s =
     (case copyUpLockedForRename e renamed s of
        (Panic msg, s1) \<Rightarrow> (Panic msg, s1)
      | (Return (Some err), s1) \<Rightarrow> (Return (Some err), s1)
      | (Return None, s1) \<Rightarrow>
          (case copyUpLockedForRename e newParent s1 of
             (Panic msg, s2) \<Rightarrow> (Panic msg, s2)
           | (Return (Some err), s2) \<Rightarrow> (Return (Some err), s2)
           | (Return None, s2) \<Rightarrow>
               (case (upper (overlays s2 ov), Dirent_overlay s2 oldParent,
                      Dirent_overlay s2 newParent) of
                  (Some recv, Return (Some oldOv), Return (Some newOv)) \<Rightarrow>
                    (case Inode_Rename recv (upper (overlays s2 oldOv)) (name renamed)
                            (upper (overlays s2 newOv)) newName replacement s2 of
                       (Panic msg, s3) \<Rightarrow> (Panic msg, s3)
                     | (Return (Some err), s3) \<Rightarrow> (Return (Some err), s3)
                     | (Return None, s3) \<Rightarrow>
                         (case (Dirent_overlay s3 renamed, Dirent_overlay s3 oldParent) of
                            (Return (Some rOv), Return (Some oldOv1)) \<Rightarrow>
                              if lowerExists (overlays s3 rOv) then
                                (case upper (overlays s3 oldOv1) of
                                   None \<Rightarrow> (nil_deref, s3)
                                 | Some pu \<Rightarrow>
                                     (let (err, s4) = overlayCreateWhiteout e pu (name renamed) s3
                                      in (Return err, s4)))
                              else (Return None, s3)
                          | _ \<Rightarrow> (nil_deref, s3)))
                | _ \<Rightarrow> (nil_deref, s2))))"

definition overlayRename ::
  "env \<Rightarrow> addr \<Rightarrow> Dirent \<Rightarrow> Dirent \<Rightarrow> Dirent \<Rightarrow> string \<Rightarrow> bool \<Rightarrow> kernel
     \<Rightarrow> errno option outcome \<times> kernel" where
  "overlayRename e ov oldParent renamed newParent newName replacement s =
     (case Inode renamed of
        None \<Rightarrow> (nil_deref, s)
      | Some ri \<Rightarrow>
     (case overlay (inodes s ri) of
        None \<Rightarrow> (Return (Some EXDEV), s)
      | Some rOv \<Rightarrow>
     (case Inode newParent of
        None \<Rightarrow> (nil_deref, s)
      | Some ni \<Rightarrow>
     (case overlay (inodes s ni) of
        None \<Rightarrow> (Return (Some EXDEV), s)
      | Some newOv \<Rightarrow>
     (case Inode oldParent of
        None \<Rightarrow> (nil_deref, s)
      | Some oi \<Rightarrow>
     (case overlay (inodes s oi) of
        None \<Rightarrow> (Return (Some EXDEV), s)
      | Some oldOv \<Rightarrow>
          (case overlayRename_replaced e newOv ni newName replacement s of
             (Done r, s1) \<Rightarrow> (r, s1)
           | (Next replacement1, s1) \<Rightarrow>
               overlayRename_move e ov oldParent renamed newParent newName replacement1 s1)))))))"

section \<open>Predicates on the state\<close>

text \<open>
  A whiteout of a name is marked on an upper directory when \<^verbatim>\<open>Getxattr\<close> of the
  whiteout attribute returns \<open>y\<close> and no error: this is what \<^verbatim>\<open>overlayHasWhiteout\<close> reads.
\<close>

definition whiteout_marked :: "env \<Rightarrow> kernel \<Rightarrow> addr \<Rightarrow> string \<Rightarrow> bool" where
  "whiteout_marked e s pu nm = (Getxattr (ops s pu) (XattrOverlayWhiteout e nm) = (''y'', None))"

text \<open>
  The answers of a layer's \<^verbatim>\<open>Lookup\<close>. The overlay goes on after a nil error and after
  \<^verbatim>\<open>ENOENT\<close>; the answer holds no match when it has no Dirent or a negative one, and is
  negative when it has a negative Dirent.
\<close>

definition no_failure :: "errno option \<Rightarrow> bool" where
  "no_failure err = (err = None \<or> err = Some ENOENT)"

definition found_nothing :: "Dirent option \<times> errno option \<Rightarrow> bool" where
  "found_nothing r =
     (no_failure (snd r) \<and> (case fst r of None \<Rightarrow> True | Some c \<Rightarrow> IsNegative c))"

definition found_negative :: "Dirent option \<times> errno option \<Rightarrow> bool" where
  "found_negative r =
     (no_failure (snd r) \<and> (case fst r of None \<Rightarrow> False | Some c \<Rightarrow> IsNegative c))"

definition upper_negative :: "kernel \<Rightarrow> overlayEntry \<Rightarrow> string \<Rightarrow> bool" where
  "upper_negative s p nm =
     (case upper p of None \<Rightarrow> False | Some pu \<Rightarrow> found_negative (Lookup (ops s pu) nm))"

text \<open>The calls of the log that are lookups, and those that change a layer.\<close>

fun is_Lookup :: "call \<Rightarrow> bool" where
  "is_Lookup (Call_Lookup i nm) = True"
| "is_Lookup c = False"

fun is_mutation :: "call \<Rightarrow> bool" where
  "is_mutation (Call_Setxattr i nm v) = True"
| "is_mutation (Call_Remove i nm) = True"
| "is_mutation (Call_RemoveDirectory i nm) = True"
| "is_mutation (Call_Rename a oldName b newName replacement) = True"
| "is_mutation (Call_copyUp d) = True"
| "is_mutation c = False"

section \<open>A small overlay, for evaluation\<close>

text \<open>
  An upper directory (Inode 11) and a lower directory (Inode 12) merged by the overlay
  directory Inode 20 (entry 30). The upper layer holds \<open>both\<close> (Inode 13), \<open>back\<close>
  (Inode 15, created again over its whiteout) and a negative Dirent for \<open>neg\<close>, and the
  whiteouts of \<open>gone\<close> and \<open>back\<close>; the lower layer holds \<open>both\<close> (Inode 14), \<open>low\<close>
  (Inode 16), \<open>gone\<close> (Inode 17), \<open>back\<close> (Inode 18) and the directory \<open>dir\<close> (Inode 19),
  which has a child. Inode 21 (entry 31) is the overlay Inode of \<open>low\<close>, which has no upper
  Inode; Inode 22 (entry 32) that of \<open>both\<close>. Entry 33 has neither Inode.
\<close>

definition no_ops :: InodeOperations where
  "no_ops =
     \<lparr>Lookup = (\<lambda>nm. (None, Some ENOENT)),
      Getxattr = (\<lambda>nm. ('''', Some ENODATA)),
      Listxattr = ([], None),
      check = (\<lambda>p. None),
      Setxattr_err = (\<lambda>nm v. None),
      Remove_err = (\<lambda>nm. None),
      RemoveDirectory_err = (\<lambda>nm. None),
      Rename_err = (\<lambda>a oldName b newName replacement. None)\<rparr>"

definition demo_env :: env where
  "demo_env =
     \<lparr>XattrOverlayPrefix = ''trusted.overlay.'',
      XattrOverlayWhiteoutPrefix = ''trusted.overlay.whiteout.'',
      newOverlayEntry_err = (\<lambda>s up lo lowerEx. None),
      doCopyUp = (\<lambda>d s. (Some EIO, s)),
      readdirOne = (\<lambda>s d. if name d = ''dir'' then ([''child''], None) else ([], None))\<rparr>"

definition demo_upper_dir :: InodeOperations where
  "demo_upper_dir = no_ops
     \<lparr>Lookup := (\<lambda>nm.
         if nm = ''both'' then (Some (NewDirent 13 ''both''), None)
         else if nm = ''back'' then (Some (NewDirent 15 ''back''), None)
         else if nm = ''neg'' then (Some (NewNegativeDirent ''neg''), None)
         else (None, Some ENOENT)),
      Getxattr := (\<lambda>nm.
         if nm = ''trusted.overlay.whiteout.gone'' then (''y'', None)
         else if nm = ''trusted.overlay.whiteout.back'' then (''y'', None)
         else if nm = ''user.note'' then (''hello'', None)
         else ('''', Some ENODATA)),
      Listxattr :=
        ([''trusted.overlay.whiteout.gone'', ''trusted.overlay.whiteout.back'', ''user.note''],
         None)\<rparr>"

definition demo_lower_dir :: InodeOperations where
  "demo_lower_dir = no_ops
     \<lparr>Lookup := (\<lambda>nm.
         if nm = ''both'' then (Some (NewDirent 14 ''both''), None)
         else if nm = ''low'' then (Some (NewDirent 16 ''low''), None)
         else if nm = ''gone'' then (Some (NewDirent 17 ''gone''), None)
         else if nm = ''back'' then (Some (NewDirent 18 ''back''), None)
         else if nm = ''dir'' then (Some (NewDirent 19 ''dir''), None)
         else (None, Some ENOENT))\<rparr>"

definition demo_inode :: "addr \<Rightarrow> Inode" where
  "demo_inode a =
     \<lparr>StableAttr =
        \<lparr>Type = (if a = 11 \<or> a = 12 \<or> a = 19 \<or> a = 20 then Directory else RegularFile),
         DeviceID = (if a = 11 \<or> a = 13 \<or> a = 15 then 1 else 2),
         InodeID = a, BlockSize = 4096\<rparr>,
      MountSource = (if a = 11 \<or> a = 13 \<or> a = 15 then 1 else if 20 \<le> a then 0 else 2),
      overlay = (if a = 20 then Some 30 else if a = 21 then Some 31 else if a = 22 then Some 32
                 else None),
      refs = 1\<rparr>"

definition demo_overlay :: "addr \<Rightarrow> overlayEntry" where
  "demo_overlay a =
     (if a = 30 then \<lparr>lowerExists = True, lower = Some 12, upper = Some 11\<rparr>
      else if a = 31 then \<lparr>lowerExists = True, lower = Some 16, upper = None\<rparr>
      else if a = 32 then \<lparr>lowerExists = True, lower = None, upper = Some 13\<rparr>
      else \<lparr>lowerExists = False, lower = None, upper = None\<rparr>)"

definition demo_kernel :: kernel where
  "demo_kernel =
     \<lparr>inodes = demo_inode,
      overlays = demo_overlay,
      ops = (\<lambda>a. if a = 11 then demo_upper_dir else if a = 12 then demo_lower_dir else no_ops),
      next_inode = 40,
      next_overlay = 40,
      calls = []\<rparr>"

definition demo_mount :: overlayMountSourceOperations where
  "demo_mount =
     \<lparr>upper_msrc = \<lparr>MS_Revalidate = (\<lambda>nm p c. True)\<rparr>,
      lower_msrc = \<lparr>MS_Revalidate = (\<lambda>nm p c. False)\<rparr>\<rparr>"

definition demo_mount_lower_revalidates :: overlayMountSourceOperations where
  "demo_mount_lower_revalidates =
     \<lparr>upper_msrc = \<lparr>MS_Revalidate = (\<lambda>nm p c. False)\<rparr>,
      lower_msrc = \<lparr>MS_Revalidate = (\<lambda>nm p c. True)\<rparr>\<rparr>"

section \<open>Facts about the state and the small overlay\<close>

lemmas demo_defs = demo_kernel_def demo_overlay_def demo_inode_def demo_lower_dir_def
  demo_upper_dir_def demo_env_def no_ops_def

lemma log_call_proj [simp]:
  "inodes (log_call c s) = inodes s" "overlays (log_call c s) = overlays s"
  "ops (log_call c s) = ops s" "next_inode (log_call c s) = next_inode s"
  "next_overlay (log_call c s) = next_overlay s" "calls (log_call c s) = calls s @ [c]"
  by (simp_all add: log_call_def)

lemma IncRef_proj [simp]:
  "inodes (IncRef i s) = (inodes s)(i := (inodes s i)\<lparr>refs := refs (inodes s i) + 1\<rparr>)"
  "overlays (IncRef i s) = overlays s"
  "ops (IncRef i s) = ops s" "next_inode (IncRef i s) = next_inode s"
  "next_overlay (IncRef i s) = next_overlay s" "calls (IncRef i s) = calls s"
  by (simp_all add: IncRef_def)

lemma DecRef_proj [simp]:
  "inodes (DecRef i s) = (inodes s)(i := (inodes s i)\<lparr>refs := refs (inodes s i) - 1\<rparr>)"
  "overlays (DecRef i s) = overlays s"
  "ops (DecRef i s) = ops s" "next_inode (DecRef i s) = next_inode s"
  "next_overlay (DecRef i s) = next_overlay s" "calls (DecRef i s) = calls s"
  by (simp_all add: DecRef_def)

lemma Dirent_DecRef_proj [simp]:
  "inodes (Dirent_DecRef d s) = inodes s" "overlays (Dirent_DecRef d s) = overlays s"
  "ops (Dirent_DecRef d s) = ops s" "next_inode (Dirent_DecRef d s) = next_inode s"
  "next_overlay (Dirent_DecRef d s) = next_overlay s"
  "calls (Dirent_DecRef d s) = calls s @ [Call_DecRef d]"
  by (simp_all add: Dirent_DecRef_def)

lemma steal_proj [simp]:
  "inodes (steal_attributes ui li s)
     = (inodes s)(ui := (inodes s ui)\<lparr>StableAttr := StableAttr (inodes s li)\<rparr>)"
  "overlays (steal_attributes ui li s) = overlays s"
  "ops (steal_attributes ui li s) = ops s" "next_inode (steal_attributes ui li s) = next_inode s"
  "next_overlay (steal_attributes ui li s) = next_overlay s"
  "calls (steal_attributes ui li s) = calls s"
  by (simp_all add: steal_attributes_def)

lemma hasWhiteout_eq:
  "overlayHasWhiteout e pu nm s
     = (whiteout_marked e s pu nm, log_call (Call_Getxattr pu (XattrOverlayWhiteout e nm)) s)"
  by (auto simp: overlayHasWhiteout_def Inode_Getxattr_def whiteout_marked_def split: prod.splits)

lemma whiteout_marked_frame [simp]:
  "whiteout_marked e (log_call c s) pu nm = whiteout_marked e s pu nm"
  "whiteout_marked e (IncRef i s) pu nm = whiteout_marked e s pu nm"
  "whiteout_marked e (DecRef i s) pu nm = whiteout_marked e s pu nm"
  "whiteout_marked e (Dirent_DecRef d s) pu nm = whiteout_marked e s pu nm"
  by (simp_all add: whiteout_marked_def)

lemma demo_state:
  "upper (overlays demo_kernel 30) = Some 11" "lower (overlays demo_kernel 30) = Some 12"
  "upper (overlays demo_kernel 31) = None" "lower (overlays demo_kernel 31) = Some 16"
  "upper (overlays demo_kernel 32) = Some 13" "lower (overlays demo_kernel 32) = None"
  "upper (overlays demo_kernel 33) = None" "lower (overlays demo_kernel 33) = None"
  "ops demo_kernel 11 = demo_upper_dir" "ops demo_kernel 12 = demo_lower_dir"
  "next_inode demo_kernel = 40" "next_overlay demo_kernel = 40" "calls demo_kernel = []"
  "inodes demo_kernel = demo_inode"
  by (simp_all add: demo_kernel_def demo_overlay_def)

lemma demo_upper_answers:
  "Lookup demo_upper_dir ''both'' = (Some (NewDirent 13 ''both''), None)"
  "Lookup demo_upper_dir ''back'' = (Some (NewDirent 15 ''back''), None)"
  "Lookup demo_upper_dir ''neg'' = (Some (NewNegativeDirent ''neg''), None)"
  "Lookup demo_upper_dir ''gone'' = (None, Some ENOENT)"
  "Lookup demo_upper_dir ''low'' = (None, Some ENOENT)"
  "Lookup demo_upper_dir ''dir'' = (None, Some ENOENT)"
  "Lookup demo_upper_dir ''nowhere'' = (None, Some ENOENT)"
  by (simp_all add: demo_upper_dir_def no_ops_def)

lemma demo_lower_answers:
  "Lookup demo_lower_dir ''both'' = (Some (NewDirent 14 ''both''), None)"
  "Lookup demo_lower_dir ''low'' = (Some (NewDirent 16 ''low''), None)"
  "Lookup demo_lower_dir ''gone'' = (Some (NewDirent 17 ''gone''), None)"
  "Lookup demo_lower_dir ''back'' = (Some (NewDirent 18 ''back''), None)"
  "Lookup demo_lower_dir ''dir'' = (Some (NewDirent 19 ''dir''), None)"
  "Lookup demo_lower_dir ''neg'' = (None, Some ENOENT)"
  "Lookup demo_lower_dir ''nowhere'' = (None, Some ENOENT)"
  by (simp_all add: demo_lower_dir_def no_ops_def)

lemma demo_whiteouts:
  "whiteout_marked demo_env demo_kernel 11 ''gone''"
  "whiteout_marked demo_env demo_kernel 11 ''back''"
  "\<not> whiteout_marked demo_env demo_kernel 11 ''both''"
  "\<not> whiteout_marked demo_env demo_kernel 11 ''low''"
  "\<not> whiteout_marked demo_env demo_kernel 11 ''dir''"
  "\<not> whiteout_marked demo_env demo_kernel 11 ''neg''"
  "\<not> whiteout_marked demo_env demo_kernel 11 ''nowhere''"
  by (simp_all add: whiteout_marked_def XattrOverlayWhiteout_def demo_env_def demo_upper_dir_def
      no_ops_def demo_kernel_def)

lemma demo_accepts: "newOverlayEntry_err demo_env s up lo lowerEx = None"
  by (simp add: demo_env_def)

lemmas lookup_defs = overlayLookup_def overlayLookup_upper_def overlayLookup_lower_def
  overlayLookup_merge_def overlayLookup_entry_def newOverlayEntry_def newOverlayInode_def
  overlayHasWhiteout_def Inode_Lookup_def Inode_Getxattr_def XattrOverlayWhiteout_def
  steal_attributes_def IncRef_def DecRef_def Dirent_DecRef_def log_call_def
  NewDirent_def NewNegativeDirent_def IsDir_def

lemmas remove_defs = overlayRemove_def overlayRemove_upper_def copyUpLockedForRename_def
  overlayCreateWhiteout_def Inode_Setxattr_def Inode_Remove_def Inode_RemoveDirectory_def
  XattrOverlayWhiteout_def log_call_def NewDirent_def

section \<open>Lookup: what each part of the function does\<close>

text \<open>The upper layer, by the answer of its \<^verbatim>\<open>Lookup\<close>.\<close>

lemma upper_phase_none:
  "upper p = None \<Longrightarrow> overlayLookup_upper e p inode nm s = (Next (None, False), s)"
  by (simp add: overlayLookup_upper_def)

lemma upper_phase_found_nothing:
  assumes "upper p = Some pu" "Lookup (ops s pu) nm = (None, err)" "no_failure err"
  shows "overlayLookup_upper e p inode nm s =
     (if whiteout_marked e s pu nm then Done (Return (None, False, Some ENOENT)) else Next (None, False),
      log_call (Call_Getxattr pu (XattrOverlayWhiteout e nm)) (log_call (Call_Lookup pu nm) s))"
  using assms
  by (auto simp: overlayLookup_upper_def Inode_Lookup_def hasWhiteout_eq no_failure_def)

lemma upper_phase_negative:
  assumes "upper p = Some pu" "Lookup (ops s pu) nm = (Some c, err)" "no_failure err" "Inode c = None"
  shows "overlayLookup_upper e p inode nm s =
     (if whiteout_marked e s pu nm then Done (Return (Some (NewNegativeDirent nm), False, None))
      else Next (None, True),
      log_call (Call_Getxattr pu (XattrOverlayWhiteout e nm))
        (Dirent_DecRef c (log_call (Call_Lookup pu nm) s)))"
  using assms
  by (auto simp: overlayLookup_upper_def Inode_Lookup_def hasWhiteout_eq no_failure_def)

lemma upper_phase_failure:
  assumes "upper p = Some pu" "Lookup (ops s pu) nm = (child, err)" "\<not> no_failure err"
  shows "overlayLookup_upper e p inode nm s =
     (Done (Return (None, False, err)), log_call (Call_Lookup pu nm) s)"
  using assms
  by (auto simp: overlayLookup_upper_def Inode_Lookup_def no_failure_def)

lemma upper_phase_found:
  assumes "upper p = Some pu" "Lookup (ops s pu) nm = (Some c, err)" "no_failure err" "Inode c = Some ui"
  shows "overlayLookup_upper e p inode nm s =
     (if whiteout_marked e s pu nm
      then (case overlayLookup_entry e (Some ui) None False inode nm
                   (log_call (Call_Getxattr pu (XattrOverlayWhiteout e nm))
                      (Dirent_DecRef c (IncRef ui (log_call (Call_Lookup pu nm) s)))) of
              (r, s4) \<Rightarrow> (Done r, s4))
      else (Next (Some ui, False),
            log_call (Call_Getxattr pu (XattrOverlayWhiteout e nm))
              (Dirent_DecRef c (IncRef ui (log_call (Call_Lookup pu nm) s)))))"
  using assms
  by (auto simp: overlayLookup_upper_def Inode_Lookup_def hasWhiteout_eq no_failure_def split: prod.splits)

text \<open>The lower layer, by the answer of its \<^verbatim>\<open>Lookup\<close>.\<close>

lemma lower_phase_none:
  "lower p = None \<Longrightarrow> overlayLookup_lower p nm upperInode s = (Next None, s)"
  by (simp add: overlayLookup_lower_def)

lemma lower_phase_failure:
  assumes "lower p = Some pl" "Lookup (ops s pl) nm = (child, err)" "\<not> no_failure err"
  shows "overlayLookup_lower p nm upperInode s =
     (Done (Return (None, False, err)),
      (case upperInode of Some ui \<Rightarrow> DecRef ui (log_call (Call_Lookup pl nm) s)
       | None \<Rightarrow> log_call (Call_Lookup pl nm) s))"
  using assms
  by (auto simp: overlayLookup_lower_def Inode_Lookup_def no_failure_def)

lemma lower_phase_found_nothing:
  assumes "lower p = Some pl" "Lookup (ops s pl) nm = (None, err)" "no_failure err"
  shows "overlayLookup_lower p nm upperInode s = (Next None, log_call (Call_Lookup pl nm) s)"
  using assms
  by (auto simp: overlayLookup_lower_def Inode_Lookup_def no_failure_def)

lemma lower_phase_negative:
  assumes "lower p = Some pl" "Lookup (ops s pl) nm = (Some c, err)" "no_failure err"
    "Inode c = None"
  shows "overlayLookup_lower p nm upperInode s
           = (Next None, Dirent_DecRef c (log_call (Call_Lookup pl nm) s))"
  using assms
  by (auto simp: overlayLookup_lower_def Inode_Lookup_def no_failure_def)

lemma lower_phase_found_alone:
  assumes "lower p = Some pl" "Lookup (ops s pl) nm = (Some c, err)" "no_failure err"
    "Inode c = Some li"
  shows "overlayLookup_lower p nm None s
           = (Next (Some li), Dirent_DecRef c (IncRef li (log_call (Call_Lookup pl nm) s)))"
  using assms
  by (auto simp: overlayLookup_lower_def Inode_Lookup_def no_failure_def)

lemma lower_phase_found_both:
  assumes "lower p = Some pl" "Lookup (ops s pl) nm = (Some c, err)" "no_failure err"
    "Inode c = Some li"
  shows "overlayLookup_lower p nm (Some ui) s =
     (if Type (StableAttr (inodes s ui)) = Type (StableAttr (inodes s li))
         \<or> (IsDir (StableAttr (inodes s ui)) \<and> IsDir (StableAttr (inodes s li)))
      then (Next (Some li), Dirent_DecRef c (IncRef li (log_call (Call_Lookup pl nm) s)))
      else (Next None, Dirent_DecRef c (log_call (Call_Lookup pl nm) s)))"
  using assms
  by (auto simp: overlayLookup_lower_def Inode_Lookup_def no_failure_def)

text \<open>The construction of the entry, and the merge.\<close>

lemma entry_accepted:
  assumes "newOverlayEntry_err e s up lo lowerEx = None" "up \<noteq> None \<or> lo \<noteq> None"
  shows "overlayLookup_entry e up lo lowerEx inode nm s =
     (Return (Some (NewDirent (next_inode s) nm), up \<noteq> None, None),
      s\<lparr>overlays := (overlays s)(next_overlay s := \<lparr>lowerExists = lowerEx, lower = lo, upper = up\<rparr>),
        next_overlay := Suc (next_overlay s),
        inodes := (inodes s)(next_inode s :=
           \<lparr>StableAttr = StableAttr (inodes s (case up of Some u \<Rightarrow> u | None \<Rightarrow> the lo)),
            MountSource = MountSource (inodes s inode),
            overlay = Some (next_overlay s), refs = 1\<rparr>),
        next_inode := Suc (next_inode s)\<rparr>)"
  using assms
  by (auto simp: overlayLookup_entry_def newOverlayEntry_def newOverlayInode_def
      split: option.splits)

lemma entry_refused:
  assumes "newOverlayEntry_err e s up lo lowerEx = Some err"
  shows "fst (overlayLookup_entry e up lo lowerEx inode nm s) = Return (None, False, Some err)"
  using assms
  by (auto simp: overlayLookup_entry_def newOverlayEntry_def Let_def split: option.splits)

lemma merge_nothing:
  "overlayLookup_merge e inode nm None None neg s =
     (Return (if neg then (Some (NewNegativeDirent nm), False, None) else (None, False, Some ENOENT)), s)"
  by (simp add: overlayLookup_merge_def)

lemma merge_lower_alone:
  "overlayLookup_merge e inode nm None (Some li) neg s
     = overlayLookup_entry e None (Some li) True inode nm s"
  by (simp add: overlayLookup_merge_def)

lemma merge_upper_alone:
  "overlayLookup_merge e inode nm (Some ui) None neg s
     = overlayLookup_entry e (Some ui) None False inode nm s"
  by (simp add: overlayLookup_merge_def)

lemma merge_both:
  "overlayLookup_merge e inode nm (Some ui) (Some li) neg s =
     (if IsDir (StableAttr (inodes s li))
      then overlayLookup_entry e (Some ui) (Some li) True inode nm (steal_attributes ui li s)
      else overlayLookup_entry e (Some ui) None True inode nm (DecRef li (steal_attributes ui li s)))"
  by (simp add: overlayLookup_merge_def Let_def)

lemma found_nothing_cases:
  assumes "found_nothing r"
  obtains err where "r = (None, err)" "no_failure err"
  | c err where "r = (Some c, err)" "no_failure err" "Inode c = None"
  using assms by (cases r) (auto simp: found_nothing_def IsNegative_def split: option.splits)

lemma lookup_answer_cases:
  obtains (failure) "\<not> no_failure (snd r)"
  | (absent) err where "r = (None, err)" "no_failure err"
  | (negative) c err where "r = (Some c, err)" "no_failure err" "Inode c = None"
  | (found) c err i where "r = (Some c, err)" "no_failure err" "Inode c = Some i"
  by (cases r; cases "fst r"; cases "Inode (the (fst r))") auto

text \<open>What the upper part hands on when the upper layer has no match and no whiteout.\<close>

lemma upper_phase_absent:
  assumes "case upper p of None \<Rightarrow> True
           | Some pu \<Rightarrow> found_nothing (Lookup (ops s pu) nm) \<and> \<not> whiteout_marked e s pu nm"
  shows "\<exists>neg s1. overlayLookup_upper e p inode nm s = (Next (None, neg), s1)
           \<and> inodes s1 = inodes s \<and> overlays s1 = overlays s \<and> ops s1 = ops s
           \<and> next_inode s1 = next_inode s \<and> next_overlay s1 = next_overlay s"
proof (cases "upper p")
  case None
  then show ?thesis by (auto simp: upper_phase_none)
next
  case (Some pu)
  with assms have fn: "found_nothing (Lookup (ops s pu) nm)" and nw: "\<not> whiteout_marked e s pu nm"
    by simp_all
  from fn show ?thesis
  proof (cases rule: found_nothing_cases)
    case (1 err)
    then show ?thesis using Some nw by (auto simp: upper_phase_found_nothing)
  next
    case (2 c err)
    then show ?thesis using Some nw by (auto simp: upper_phase_negative)
  qed
qed

text \<open>A negative Dirent comes from the upper layer only.\<close>

lemma entry_not_negative:
  "overlayLookup_entry e up lo lowerEx inode nm s = (Return (Some d, b, er), s1) \<Longrightarrow> \<not> IsNegative d"
  by (auto simp: overlayLookup_entry_def Let_def IsNegative_def NewDirent_def
      split: prod.splits sum.splits outcome.splits)

lemma upper_phase_negative_confirmed:
  "(overlayLookup_upper e p inode nm s = (Done (Return (Some d, b, er)), s1) \<and> IsNegative d
      \<longrightarrow> upper_negative s p nm)
   \<and> (overlayLookup_upper e p inode nm s = (Next (ui, True), s1) \<longrightarrow> upper_negative s p nm)"
proof (cases "upper p")
  case None
  then show ?thesis by (simp add: upper_phase_none)
next
  case (Some pu)
  show ?thesis
  proof (cases rule: lookup_answer_cases [of "Lookup (ops s pu) nm"])
    case failure
    obtain child err where r: "Lookup (ops s pu) nm = (child, err)" by (cases "Lookup (ops s pu) nm")
    with failure have "\<not> no_failure err" by simp
    from upper_phase_failure [OF Some r this] show ?thesis by simp
  next
    case (absent err)
    from upper_phase_found_nothing [OF Some absent] show ?thesis
      by (simp split: if_splits)
  next
    case (negative c err)
    from upper_phase_negative [OF Some negative] show ?thesis
      using Some negative
      by (simp add: upper_negative_def found_negative_def IsNegative_def split: if_splits)
  next
    case (found c err i)
    from upper_phase_found [OF Some found] show ?thesis
      by (auto split: if_splits prod.splits dest: entry_not_negative)
  qed
qed

lemma lower_phase_no_dirent:
  "overlayLookup_lower p nm ui s \<noteq> (Done (Return (Some d, b, er)), s1)"
  by (auto simp: overlayLookup_lower_def Let_def split: option.splits prod.splits if_splits)

lemma merge_negative_confirmed:
  "overlayLookup_merge e inode nm ui li neg s = (Return (Some d, b, er), s1) \<Longrightarrow> IsNegative d \<Longrightarrow> neg"
  by (auto simp: overlayLookup_merge_def Let_def split: if_splits option.splits prod.splits
      dest: entry_not_negative)

lemma negative_confirmed:
  assumes "fst (overlayLookup e parent inode nm s) = Return (Some d, b, er)" "IsNegative d"
  shows "upper_negative s (overlays s parent) nm"
proof -
  obtain st s1 where u: "overlayLookup_upper e (overlays s parent) inode nm s = (st, s1)"
    by (cases "overlayLookup_upper e (overlays s parent) inode nm s")
  show ?thesis
  proof (cases st)
    case (Done r)
    with assms u have "r = Return (Some d, b, er)"
      by (simp add: overlayLookup_def split: if_splits)
    with upper_phase_negative_confirmed [of e "overlays s parent" inode nm s d b er s1] u Done assms(2)
    show ?thesis by simp
  next
    case (Next x)
    obtain ui neg where x: "x = (ui, neg)" by (cases x)
    obtain st2 s2 where l: "overlayLookup_lower (overlays s parent) nm ui s1 = (st2, s2)"
      by (cases "overlayLookup_lower (overlays s parent) nm ui s1")
    show ?thesis
    proof (cases st2)
      case (Done r)
      with assms u Next x l have "r = Return (Some d, b, er)"
        by (simp add: overlayLookup_def split: if_splits)
      with l Done lower_phase_no_dirent [of "overlays s parent" nm ui s1 d b er s2]
      show ?thesis by simp
    next
      case (Next li)
      with assms u \<open>st = Next x\<close> x l
      have "fst (overlayLookup_merge e inode nm ui li neg s2) = Return (Some d, b, er)"
        by (simp add: overlayLookup_def split: if_splits)
      then have neg
        using merge_negative_confirmed [of e inode nm ui li neg s2 d b er] assms(2)
        by (cases "overlayLookup_merge e inode nm ui li neg s2") auto
      with upper_phase_negative_confirmed [of e "overlays s parent" inode nm s d b er s1 ui] u
        \<open>st = Next x\<close> x
      show ?thesis by simp
    qed
  qed
qed

text \<open>The result when no layer has a match.\<close>

lemma upper_phase_nothing:
  assumes "case upper p of None \<Rightarrow> True | Some pu \<Rightarrow> found_nothing (Lookup (ops s pu) nm)"
  shows "\<exists>s1. ops s1 = ops s
     \<and> (overlayLookup_upper e p inode nm s
           = (Done (Return (if upper_negative s p nm then (Some (NewNegativeDirent nm), False, None)
                            else (None, False, Some ENOENT))), s1)
         \<or> overlayLookup_upper e p inode nm s = (Next (None, upper_negative s p nm), s1))"
proof (cases "upper p")
  case None
  then show ?thesis by (auto simp: upper_phase_none upper_negative_def)
next
  case (Some pu)
  with assms have "found_nothing (Lookup (ops s pu) nm)" by simp
  then show ?thesis
  proof (cases rule: found_nothing_cases)
    case (1 err)
    then show ?thesis using Some
      by (auto simp: upper_phase_found_nothing upper_negative_def found_negative_def)
  next
    case (2 c err)
    then show ?thesis using Some
      by (auto simp: upper_phase_negative upper_negative_def found_negative_def IsNegative_def)
  qed
qed

lemma lower_phase_nothing:
  assumes "case lower p of None \<Rightarrow> True | Some pl \<Rightarrow> found_nothing (Lookup (ops s pl) nm)"
  shows "\<exists>s1. overlayLookup_lower p nm None s = (Next None, s1)"
proof (cases "lower p")
  case None
  then show ?thesis by (simp add: lower_phase_none)
next
  case (Some pl)
  with assms have "found_nothing (Lookup (ops s pl) nm)" by simp
  then show ?thesis
  proof (cases rule: found_nothing_cases)
    case (1 err)
    then show ?thesis using Some by (simp add: lower_phase_found_nothing)
  next
    case (2 c err)
    then show ?thesis using Some by (simp add: lower_phase_negative)
  qed
qed

lemma absent_result:
  assumes inv: "upper (overlays s parent) \<noteq> None \<or> lower (overlays s parent) \<noteq> None"
    and up: "case upper (overlays s parent) of None \<Rightarrow> True
             | Some pu \<Rightarrow> found_nothing (Lookup (ops s pu) nm)"
    and lo: "case lower (overlays s parent) of None \<Rightarrow> True
             | Some pl \<Rightarrow> found_nothing (Lookup (ops s pl) nm)"
  shows "fst (overlayLookup e parent inode nm s) =
           Return (if upper_negative s (overlays s parent) nm
                   then (Some (NewNegativeDirent nm), False, None)
                   else (None, False, Some ENOENT))"
proof -
  from upper_phase_nothing [OF up, of e inode] obtain s1 where o: "ops s1 = ops s"
    and u: "overlayLookup_upper e (overlays s parent) inode nm s
           = (Done (Return (if upper_negative s (overlays s parent) nm
                            then (Some (NewNegativeDirent nm), False, None)
                            else (None, False, Some ENOENT))), s1)
         \<or> overlayLookup_upper e (overlays s parent) inode nm s
           = (Next (None, upper_negative s (overlays s parent) nm), s1)"
    by blast
  from lo o have "case lower (overlays s parent) of None \<Rightarrow> True
             | Some pl \<Rightarrow> found_nothing (Lookup (ops s1 pl) nm)"
    by (simp split: option.splits)
  from lower_phase_nothing [OF this] obtain s2 where
    l: "overlayLookup_lower (overlays s parent) nm None s1 = (Next None, s2)" by blast
  from u show ?thesis
  proof
    assume "overlayLookup_upper e (overlays s parent) inode nm s
           = (Done (Return (if upper_negative s (overlays s parent) nm
                            then (Some (NewNegativeDirent nm), False, None)
                            else (None, False, Some ENOENT))), s1)"
    then show ?thesis using inv by (simp add: overlayLookup_def)
  next
    assume "overlayLookup_upper e (overlays s parent) inode nm s
           = (Next (None, upper_negative s (overlays s parent) nm), s1)"
    then show ?thesis using inv l by (simp add: overlayLookup_def merge_nothing)
  qed
qed

lemma whiteout_absent_result:
  assumes up: "upper (overlays s parent) = Some pu" and w: "whiteout_marked e s pu nm"
    and fn: "found_nothing (Lookup (ops s pu) nm)"
  shows "\<exists>s1. overlayLookup e parent inode nm s
           = (Return (if found_negative (Lookup (ops s pu) nm)
                      then (Some (NewNegativeDirent nm), False, None)
                      else (None, False, Some ENOENT)), s1)
         \<and> filter is_Lookup (calls s1) = filter is_Lookup (calls s) @ [Call_Lookup pu nm]"
  using fn
proof (cases rule: found_nothing_cases)
  case (1 err)
  from upper_phase_found_nothing [OF up 1] show ?thesis
    using up w 1 by (simp add: overlayLookup_def found_negative_def)
next
  case (2 c err)
  from upper_phase_negative [OF up 2] show ?thesis
    using up w 2 by (simp add: overlayLookup_def found_negative_def IsNegative_def)
qed

text \<open>
  A lookup leaves the backing tables and the entries that exist alone, and delegates no
  mutation.
\<close>

lemma entry_frame:
  "overlayLookup_entry e up lo lowerEx inode nm s = (r, s1) \<Longrightarrow>
     ops s1 = ops s \<and> calls s1 = calls s
     \<and> (\<forall>a. a \<noteq> next_overlay s \<longrightarrow> overlays s1 a = overlays s a)"
  by (auto simp: overlayLookup_entry_def newOverlayEntry_def newOverlayInode_def Let_def
      split: option.splits prod.splits sum.splits outcome.splits)

lemma upper_phase_frame:
  assumes "overlayLookup_upper e p inode nm s = (st, s1)"
  shows "ops s1 = ops s \<and> filter is_mutation (calls s1) = filter is_mutation (calls s)
    \<and> (\<forall>a. a \<noteq> next_overlay s \<longrightarrow> overlays s1 a = overlays s a)
    \<and> (\<forall>x. st = Next x \<longrightarrow> overlays s1 = overlays s \<and> next_overlay s1 = next_overlay s)"
proof (cases "upper p")
  case None
  then show ?thesis using assms by (auto simp: upper_phase_none)
next
  case (Some pu)
  show ?thesis
  proof (cases rule: lookup_answer_cases [of "Lookup (ops s pu) nm"])
    case failure
    obtain child err where r: "Lookup (ops s pu) nm = (child, err)" by (cases "Lookup (ops s pu) nm")
    with failure have "\<not> no_failure err" by simp
    from upper_phase_failure [OF Some r this] assms show ?thesis by auto
  next
    case (absent err)
    from upper_phase_found_nothing [OF Some absent] assms show ?thesis
      by auto
  next
    case (negative c err)
    from upper_phase_negative [OF Some negative] assms show ?thesis
      by auto
  next
    case (found c err i)
    from upper_phase_found [OF Some found] assms show ?thesis
      by (auto split: if_splits prod.splits dest!: entry_frame)
  qed
qed

lemma lower_phase_frame:
  assumes "overlayLookup_lower p nm ui s = (st, s1)"
  shows "ops s1 = ops s \<and> filter is_mutation (calls s1) = filter is_mutation (calls s)
    \<and> overlays s1 = overlays s \<and> next_overlay s1 = next_overlay s"
  using assms
  by (auto simp: overlayLookup_lower_def Inode_Lookup_def Let_def
      split: option.splits prod.splits if_splits)

lemma merge_frame:
  assumes "overlayLookup_merge e inode nm ui li neg s = (r, s1)"
  shows "ops s1 = ops s \<and> calls s1 = calls s
    \<and> (\<forall>a. a \<noteq> next_overlay s \<longrightarrow> overlays s1 a = overlays s a)"
  using assms
  by (auto simp: overlayLookup_merge_def Let_def split: option.splits prod.splits if_splits
      dest!: entry_frame)

lemma overlayLookup_frame:
  assumes "overlayLookup e parent inode nm s = (r, s3)"
  shows "ops s3 = ops s \<and> filter is_mutation (calls s3) = filter is_mutation (calls s)
    \<and> (\<forall>a. a \<noteq> next_overlay s \<longrightarrow> overlays s3 a = overlays s a)"
proof -
  obtain st s1 where u: "overlayLookup_upper e (overlays s parent) inode nm s = (st, s1)"
    by (cases "overlayLookup_upper e (overlays s parent) inode nm s")
  note f1 = upper_phase_frame [OF u]
  show ?thesis
  proof (cases st)
    case (Done r1)
    with assms u f1 show ?thesis by (auto simp: overlayLookup_def split: if_splits)
  next
    case (Next x)
    obtain ui neg where x: "x = (ui, neg)" by (cases x)
    obtain st2 s2 where l: "overlayLookup_lower (overlays s parent) nm ui s1 = (st2, s2)"
      by (cases "overlayLookup_lower (overlays s parent) nm ui s1")
    note f2 = lower_phase_frame [OF l]
    show ?thesis
    proof (cases st2)
      case (Done r2)
      with assms u Next x l f1 f2 show ?thesis by (auto simp: overlayLookup_def split: if_splits)
    next
      case (Next li)
      with assms u \<open>st = Next x\<close> x l f1 f2 show ?thesis
        by (auto simp: overlayLookup_def split: if_splits dest!: merge_frame)
    qed
  qed
qed

section \<open>Remove: the steps of a remove that succeeds\<close>

lemma Setxattr_ok:
  assumes "Inode_Setxattr i nm v s = (None, s1)"
  shows "calls s1 = calls s @ [Call_Setxattr i nm v]" "Getxattr (ops s1 i) nm = (v, None)"
    "Lookup (ops s1 j) = Lookup (ops s j)" "overlays s1 = overlays s" "inodes s1 = inodes s"
    "j \<noteq> i \<Longrightarrow> ops s1 j = ops s j"
  using assms
  by (auto simp: Inode_Setxattr_def Let_def log_call_def split: option.splits)

lemma Remove_ok:
  assumes "Inode_Remove i nm s = (None, s1)"
  shows "calls s1 = calls s @ [Call_Remove i nm]" "Lookup (ops s1 i) nm = (None, Some ENOENT)"
    "overlays s1 = overlays s" "inodes s1 = inodes s" "j \<noteq> i \<Longrightarrow> ops s1 j = ops s j"
  using assms
  by (auto simp: Inode_Remove_def Let_def log_call_def split: option.splits)

lemma RemoveDirectory_ok:
  assumes "Inode_RemoveDirectory i nm s = (None, s1)"
  shows "calls s1 = calls s @ [Call_RemoveDirectory i nm]"
    "Lookup (ops s1 i) nm = (None, Some ENOENT)"
    "overlays s1 = overlays s" "inodes s1 = inodes s" "j \<noteq> i \<Longrightarrow> ops s1 j = ops s j"
  using assms
  by (auto simp: Inode_RemoveDirectory_def Let_def log_call_def split: option.splits)

lemma Remove_frame:
  "overlays (snd (Inode_Remove i nm s)) = overlays s"
  "overlays (snd (Inode_RemoveDirectory i nm s)) = overlays s"
  by (auto simp: Inode_Remove_def Inode_RemoveDirectory_def Let_def log_call_def split: option.splits)

lemma overlayRemove_steps:
  assumes cu: "copyUpLockedForRename e parent s = (Return None, s1)"
    and ci: "Inode child = Some ci" "overlay (inodes s1 ci) = Some co"
    and le: "lowerExists (overlays s1 co)"
    and pu: "upper (overlays s1 ov) = Some pu"
    and ok: "overlayRemove e ov parent child s = (Return None, s3)"
  shows "\<exists>s2. (if upper (overlays s1 co) = None then s2 = s1
               else if Type (StableAttr (inodes s1 ci)) = Directory
                    then Inode_RemoveDirectory pu (name child) s1 = (None, s2)
                    else Inode_Remove pu (name child) s1 = (None, s2))
          \<and> Inode_Setxattr pu (XattrOverlayWhiteout e (name child)) ''y'' s2 = (None, s3)"
proof (cases "upper (overlays s1 co)")
  case None
  then show ?thesis
    using assms
    by (auto simp: overlayRemove_def overlayRemove_upper_def overlayCreateWhiteout_def
        split: prod.splits)
next
  case (Some cu1)
  show ?thesis
  proof (cases "Type (StableAttr (inodes s1 ci)) = Directory")
    case True
    obtain r s2 where rm: "Inode_RemoveDirectory pu (name child) s1 = (r, s2)"
      by (cases "Inode_RemoveDirectory pu (name child) s1")
    have o: "overlays s2 = overlays s1" using Remove_frame(2) [of pu "name child" s1] rm by simp
    show ?thesis
      using assms Some True rm o
      by (auto simp: overlayRemove_def overlayRemove_upper_def overlayCreateWhiteout_def
          split: prod.splits option.splits)
  next
    case False
    obtain r s2 where rm: "Inode_Remove pu (name child) s1 = (r, s2)"
      by (cases "Inode_Remove pu (name child) s1")
    have o: "overlays s2 = overlays s1" using Remove_frame(1) [of pu "name child" s1] rm by simp
    show ?thesis
      using assms Some False rm o
      by (auto simp: overlayRemove_def overlayRemove_upper_def overlayCreateWhiteout_def
          split: prod.splits option.splits)
  qed
qed

section \<open>C1: the reserved attribute namespace\<close>

lemma overlayGetxattr_guard:
  "HasPrefix nm (XattrOverlayPrefix e) \<Longrightarrow> nm \<noteq> XattrOverlayPrefix e \<Longrightarrow>
   upper (overlays s ov) = Some u \<Longrightarrow>
   fst (overlayGetxattr e ov nm s) = Return (Getxattr (ops s u) nm)"
  by (auto simp: overlayGetxattr_def HasPrefix_def Inode_Getxattr_def)

text \<open>
  C1. A name of the reserved whiteout namespace should get "no such attribute" from
  \<^verbatim>\<open>overlayGetxattr\<close> and be absent from the result of \<^verbatim>\<open>overlayListxattr\<close>. The guard of
  both functions asks whether the reserved prefix begins with the name, not whether the name
  begins with the reserved prefix, so that a name longer than the prefix is forwarded: on the
  small overlay, whose upper directory stores the whiteout of \<open>gone\<close>, the attribute
  \<open>trusted.overlay.whiteout.gone\<close> has the reserved prefix, \<^verbatim>\<open>overlayGetxattr\<close> returns
  its stored value \<open>y\<close> without an error, and \<^verbatim>\<open>overlayListxattr\<close> lists it.
\<close>

theorem overlayGetxattr_forwards_whiteout:
  "XattrOverlayWhiteout demo_env ''gone'' = ''trusted.overlay.whiteout.gone''
   \<and> HasPrefix ''trusted.overlay.whiteout.gone'' (XattrOverlayPrefix demo_env)
   \<and> fst (overlayGetxattr demo_env 30 ''trusted.overlay.whiteout.gone'' demo_kernel)
       = Return (''y'', None)
   \<and> fst (overlayListxattr demo_env 30 demo_kernel)
       = Return ([''trusted.overlay.whiteout.gone'', ''trusted.overlay.whiteout.back'',
                  ''user.note''], None)"
  by (simp add: demo_defs XattrOverlayWhiteout_def HasPrefix_def overlayGetxattr_def
      overlayListxattr_def Inode_Getxattr_def Inode_Listxattr_def delete_overlay_names_def)

section \<open>C2: rename onto a directory that is not empty\<close>

text \<open>
  C2. A rename with the replacement flag set, between three overlay Inodes, whose
  destination name resolves again to a Dirent that is not negative, is a directory and has
  at least one child, returns \<^verbatim>\<open>ENOTEMPTY\<close>. Up to that return no mutation is delegated:
  the log has no new copy-up, \<^verbatim>\<open>Setxattr\<close> (whiteout), remove or rename call, the tables of
  both layers are unchanged, and so is every overlay entry that existed (none has been given
  an upper Inode).
\<close>

theorem overlayRename_not_empty:
  assumes ri: "Inode renamed = Some ri" "overlay (inodes s ri) = Some rOv"
    and ni: "Inode newParent = Some ni" "overlay (inodes s ni) = Some newOv"
    and oi: "Inode oldParent = Some oi" "overlay (inodes s oi) = Some oldOv"
    and lk: "overlayLookup e newOv ni newName s = (Return (Some replaced, inUpper, None), s1)"
    and dir: "Inode replaced = Some di" "IsDir (StableAttr (inodes s1 di))"
    and children: "readdirOne e s1 replaced = (children, None)" "children \<noteq> []"
  shows "\<exists>s2. overlayRename e ov oldParent renamed newParent newName True s
                = (Return (Some ENOTEMPTY), s2)
     \<and> filter is_mutation (calls s2) = filter is_mutation (calls s)
     \<and> ops s2 = ops s
     \<and> (\<forall>a. a \<noteq> next_overlay s \<longrightarrow> overlays s2 a = overlays s a)"
  using assms overlayLookup_frame [OF lk]
  by (simp add: overlayRename_def overlayRename_replaced_def Call_readdirOne_in_def)

text \<open>On the small overlay: renaming \<open>low\<close> onto the directory \<open>dir\<close>, which has a child.\<close>

theorem overlayRename_not_empty_witness:
  "\<exists>s2. overlayRename demo_env 30 (NewDirent 20 ''root'') (NewDirent 21 ''low'')
            (NewDirent 20 ''root'') ''dir'' True demo_kernel
           = (Return (Some ENOTEMPTY), s2)
     \<and> filter is_mutation (calls s2) = []
     \<and> ops s2 = ops demo_kernel
     \<and> upper (overlays s2 31) = None"
proof -
  let ?s1 = "snd (overlayLookup demo_env 30 20 ''dir'' demo_kernel)"
  have f: "fst (overlayLookup demo_env 30 20 ''dir'' demo_kernel)
             = Return (Some (NewDirent 40 ''dir''), False, None)"
    by (simp add: lookup_defs demo_defs)
  then have lk: "overlayLookup demo_env 30 20 ''dir'' demo_kernel
                   = (Return (Some (NewDirent 40 ''dir''), False, None), ?s1)"
    by (simp add: prod_eq_iff)
  have dir: "Inode (NewDirent 40 ''dir'') = Some 40" "IsDir (StableAttr (inodes ?s1 40))"
    by (simp_all add: lookup_defs demo_defs)
  have ch: "readdirOne demo_env ?s1 (NewDirent 40 ''dir'') = ([''child''], None)"
    "[''child''] \<noteq> []"
    by (simp_all add: demo_env_def NewDirent_def)
  have ri: "Inode (NewDirent 21 ''low'') = Some 21" "overlay (inodes demo_kernel 21) = Some 31"
    by (simp_all add: NewDirent_def demo_defs)
  have ni: "Inode (NewDirent 20 ''root'') = Some 20" "overlay (inodes demo_kernel 20) = Some 30"
    by (simp_all add: NewDirent_def demo_defs)
  show ?thesis
    using overlayRename_not_empty [OF ri ni ni lk dir ch, of 30]
    by (auto simp: demo_state)
qed

section \<open>C3: lookup under a whiteout\<close>

text \<open>
  C3, as the code has it. When a whiteout of the name is marked on the parent's upper
  directory, the lookup returns (it does not panic), and its only \<^verbatim>\<open>Lookup\<close> call is the
  one on the upper directory: the lower layer is not consulted. The result follows the answer
  of the upper layer: its failure is passed on; no Dirent gives \<^verbatim>\<open>ENOENT\<close>; a negative
  Dirent gives a negative Dirent; and an Inode found in the upper layer (a file created over
  the whiteout) gives a Dirent of an entry with that upper Inode, no lower Inode and
  \<^verbatim>\<open>lowerExists = false\<close>, found in the upper layer, exactly when
  \<^verbatim>\<open>newOverlayEntry\<close> accepts the entry; when it refuses, the result is its error and no entry is made (the
  refusal is read in the state in which the function is called: after the lookup, the
  reference taken on the Inode, the release of the child and the whiteout check). No result
  holds anything of the lower layer.
\<close>

theorem overlayLookup_whiteout:
  assumes up: "upper (overlays s parent) = Some pu" and w: "whiteout_marked e s pu nm"
  shows "\<exists>r s'. overlayLookup e parent inode nm s = (Return r, s')
    \<and> filter is_Lookup (calls s') = filter is_Lookup (calls s) @ [Call_Lookup pu nm]
    \<and> (\<not> no_failure (snd (Lookup (ops s pu) nm)) \<longrightarrow> r = (None, False, snd (Lookup (ops s pu) nm)))
    \<and> (no_failure (snd (Lookup (ops s pu) nm)) \<longrightarrow>
         (case fst (Lookup (ops s pu) nm) of
            None \<Rightarrow> r = (None, False, Some ENOENT)
          | Some c \<Rightarrow>
              (case Inode c of
                 None \<Rightarrow> r = (Some (NewNegativeDirent nm), False, None)
               | Some ui \<Rightarrow>
                   (case newOverlayEntry_err e
                           (log_call (Call_Getxattr pu (XattrOverlayWhiteout e nm))
                              (Dirent_DecRef c (IncRef ui (log_call (Call_Lookup pu nm) s))))
                           (Some ui) None False of
                      Some refusal \<Rightarrow>
                        r = (None, False, Some refusal)
                        \<and> overlays s' = overlays s \<and> next_overlay s' = next_overlay s
                    | None \<Rightarrow>
                        r = (Some (NewDirent (next_inode s) nm), True, None)
                        \<and> overlay (inodes s' (next_inode s)) = Some (next_overlay s)
                        \<and> overlays s' (next_overlay s)
                             = \<lparr>lowerExists = False, lower = None, upper = Some ui\<rparr>))))"
proof (cases rule: lookup_answer_cases [of "Lookup (ops s pu) nm"])
  case failure
  obtain child err where r: "Lookup (ops s pu) nm = (child, err)" by (cases "Lookup (ops s pu) nm")
  with failure have "\<not> no_failure err" by simp
  from upper_phase_failure [OF up r this] show ?thesis
    using up failure r by (simp add: overlayLookup_def)
next
  case (absent err)
  from upper_phase_found_nothing [OF up absent] show ?thesis
    using up w absent by (simp add: overlayLookup_def)
next
  case (negative c err)
  from upper_phase_negative [OF up negative] show ?thesis
    using up w negative by (simp add: overlayLookup_def)
next
  case (found c err ui)
  let ?s3 = "log_call (Call_Getxattr pu (XattrOverlayWhiteout e nm))
               (Dirent_DecRef c (IncRef ui (log_call (Call_Lookup pu nm) s)))"
  have u: "overlayLookup_upper e (overlays s parent) inode nm s =
             (case overlayLookup_entry e (Some ui) None False inode nm ?s3 of (r, s4) \<Rightarrow> (Done r, s4))"
    using upper_phase_found [OF up found] w by simp
  show ?thesis
  proof (cases "newOverlayEntry_err e ?s3 (Some ui) None False")
    case None
    show ?thesis
      using up found None
      by (simp add: overlayLookup_def u entry_accepted [OF None])
  next
    case (Some refusal)
    have "overlayLookup_entry e (Some ui) None False inode nm ?s3
            = (Return (None, False, Some refusal), DecRef ui ?s3)"
      using Some by (simp add: overlayLookup_entry_def newOverlayEntry_def)
    then show ?thesis
      using up found Some
      by (simp add: overlayLookup_def u)
  qed
qed

text \<open>
  On the small overlay: \<open>gone\<close> is under a whiteout and the upper layer has no such name;
  \<open>back\<close> is under a whiteout and the upper layer holds it (Inode 15).
\<close>

theorem overlayLookup_whiteout_witness:
  "(\<exists>s'. overlayLookup demo_env 30 20 ''gone'' demo_kernel
           = (Return (None, False, Some ENOENT), s')
     \<and> filter is_Lookup (calls s') = [Call_Lookup 11 ''gone''])
   \<and> (\<exists>s'. overlayLookup demo_env 30 20 ''back'' demo_kernel
           = (Return (Some (NewDirent 40 ''back''), True, None), s')
     \<and> filter is_Lookup (calls s') = [Call_Lookup 11 ''back'']
     \<and> overlays s' 40 = \<lparr>lowerExists = False, lower = None, upper = Some 15\<rparr>)"
  using overlayLookup_whiteout [of demo_kernel 30 11 demo_env "''gone''" 20]
    overlayLookup_whiteout [of demo_kernel 30 11 demo_env "''back''" 20]
  by (auto simp: demo_state demo_upper_answers demo_whiteouts demo_accepts no_failure_def
      NewDirent_def)

text \<open>
  C3 as it is stated fails where the upper layer holds the name under its whiteout: on the
  small overlay the whiteout of \<open>back\<close> is marked and the lookup of \<open>back\<close> returns a
  Dirent that is not negative, without an error.
\<close>

theorem overlayLookup_whiteout_over_upper:
  "whiteout_marked demo_env demo_kernel 11 ''back''
   \<and> upper (overlays demo_kernel 30) = Some 11
   \<and> fst (overlayLookup demo_env 30 20 ''back'' demo_kernel)
       = Return (Some (NewDirent 40 ''back''), True, None)
   \<and> \<not> IsNegative (NewDirent 40 ''back'')"
proof -
  have up: "upper (overlays demo_kernel 30) = Some 11" by (simp add: demo_state)
  have lk: "Lookup (ops demo_kernel 11) ''back'' = (Some (NewDirent 15 ''back''), None)"
    by (simp add: demo_state demo_upper_answers)
  have i: "Inode (NewDirent 15 ''back'') = Some 15" by (simp add: NewDirent_def)
  have nf: "no_failure None" by (simp add: no_failure_def)
  show ?thesis
    using upper_phase_found [OF up lk nf i, of demo_env 20]
    by (simp add: overlayLookup_def demo_state demo_whiteouts entry_accepted demo_accepts
        NewDirent_def IsNegative_def)
qed

section \<open>C4: a name that no layer has\<close>

text \<open>
  C4. For a parent entry with at least one Inode: when the lookup in each layer the parent
  has finds nothing (no failure, and no Dirent or a negative one), the result is
  \<^verbatim>\<open>ENOENT\<close>, or a negative Dirent when the upper layer answered with a negative Dirent.
  And whatever the layers hold, a negative Dirent is returned only when the upper layer
  answered with a negative Dirent.
\<close>

theorem overlayLookup_absent:
  assumes "upper (overlays s parent) \<noteq> None \<or> lower (overlays s parent) \<noteq> None"
  shows "((case upper (overlays s parent) of None \<Rightarrow> True
           | Some pu \<Rightarrow> found_nothing (Lookup (ops s pu) nm))
          \<and> (case lower (overlays s parent) of None \<Rightarrow> True
              | Some pl \<Rightarrow> found_nothing (Lookup (ops s pl) nm))
          \<longrightarrow> fst (overlayLookup e parent inode nm s) =
                Return (if upper_negative s (overlays s parent) nm
                        then (Some (NewNegativeDirent nm), False, None)
                        else (None, False, Some ENOENT)))
     \<and> (\<forall>d inUpper err.
           fst (overlayLookup e parent inode nm s) = Return (Some d, inUpper, err) \<and> IsNegative d
           \<longrightarrow> upper_negative s (overlays s parent) nm)"
  using assms absent_result [of s parent nm e inode] negative_confirmed [of e parent inode nm s]
  by blast

text \<open>On the small overlay: \<open>nowhere\<close> is in no layer; the upper layer is negative on \<open>neg\<close>.\<close>

theorem overlayLookup_absent_witness:
  "fst (overlayLookup demo_env 30 20 ''nowhere'' demo_kernel) = Return (None, False, Some ENOENT)
   \<and> fst (overlayLookup demo_env 30 20 ''neg'' demo_kernel)
       = Return (Some (NewNegativeDirent ''neg''), False, None)"
  using overlayLookup_absent [of demo_kernel 30 "''nowhere''" demo_env 20]
    overlayLookup_absent [of demo_kernel 30 "''neg''" demo_env 20]
  by (simp add: demo_state demo_upper_answers demo_lower_answers found_nothing_def
      found_negative_def upper_negative_def no_failure_def IsNegative_def NewNegativeDirent_def)

section \<open>C5: a file of the lower layer only\<close>

text \<open>
  C5. When the lower directory holds the name, and the upper directory, if the parent has
  one, holds neither the name nor its whiteout, the lookup returns a Dirent and the flag
  false; the entry of the Dirent's Inode has no upper Inode, the lower Inode and
  \<^verbatim>\<open>lowerExists = true\<close>, and the lower Inode has one reference more. The lower Inode is
  an allocated object, and \<^verbatim>\<open>newOverlayEntry\<close> does not refuse the entry.
\<close>

theorem overlayLookup_lower_only:
  assumes lo: "lower (overlays s parent) = Some pl"
    and found: "Lookup (ops s pl) nm = (Some c, err)" "no_failure err" "Inode c = Some li"
    and up: "case upper (overlays s parent) of None \<Rightarrow> True
             | Some pu \<Rightarrow> found_nothing (Lookup (ops s pu) nm) \<and> \<not> whiteout_marked e s pu nm"
    and alloc: "li < next_inode s"
    and acc: "\<forall>s1. newOverlayEntry_err e s1 None (Some li) True = None"
  shows "\<exists>s'. overlayLookup e parent inode nm s
             = (Return (Some (NewDirent (next_inode s) nm), False, None), s')
    \<and> overlay (inodes s' (next_inode s)) = Some (next_overlay s)
    \<and> overlays s' (next_overlay s) = \<lparr>lowerExists = True, lower = Some li, upper = None\<rparr>
    \<and> refs (inodes s' li) = refs (inodes s li) + 1"
proof -
  from upper_phase_absent [OF up, of inode] obtain neg s1 where
    u: "overlayLookup_upper e (overlays s parent) inode nm s = (Next (None, neg), s1)"
    and fr: "inodes s1 = inodes s" "ops s1 = ops s" "next_inode s1 = next_inode s"
      "next_overlay s1 = next_overlay s"
    by blast
  from found fr have "Lookup (ops s1 pl) nm = (Some c, err)" by simp
  from lower_phase_found_alone [OF lo this found(2,3)]
  have l: "overlayLookup_lower (overlays s parent) nm None s1
             = (Next (Some li), Dirent_DecRef c (IncRef li (log_call (Call_Lookup pl nm) s1)))" .
  from acc have a: "newOverlayEntry_err e (Dirent_DecRef c (IncRef li (log_call (Call_Lookup pl nm) s1)))
      None (Some li) True = None" by blast
  show ?thesis
    using lo alloc fr
    by (simp add: overlayLookup_def u l merge_lower_alone entry_accepted [OF a])
qed

text \<open>On the small overlay: \<open>low\<close>.\<close>

theorem overlayLookup_lower_only_witness:
  "\<exists>s'. overlayLookup demo_env 30 20 ''low'' demo_kernel
           = (Return (Some (NewDirent 40 ''low''), False, None), s')
     \<and> overlay (inodes s' 40) = Some 40
     \<and> overlays s' 40 = \<lparr>lowerExists = True, lower = Some 16, upper = None\<rparr>
     \<and> refs (inodes s' 16) = 2"
  using overlayLookup_lower_only [of demo_kernel 30 12 "''low''" "NewDirent 16 ''low''" None 16
      demo_env 20]
  by (auto simp: demo_state demo_upper_answers demo_lower_answers demo_whiteouts demo_accepts
      no_failure_def found_nothing_def NewDirent_def demo_inode_def)

section \<open>C6: a name that both layers have\<close>

text \<open>
  C6. When the lookups of both layers find an Inode (the lower layer is consulted: no
  whiteout of the name is marked) and the types agree or both are directories, the upper
  Inode gets the stable attributes of the lower Inode, and the entry has the upper Inode and
  \<^verbatim>\<open>lowerExists = true\<close>. When the merged type is not a directory the entry has no lower
  Inode and the reference taken on the lower Inode has been released; when it is a directory
  the entry keeps the lower Inode and its reference. The two Inodes are distinct allocated
  objects, and \<^verbatim>\<open>newOverlayEntry\<close> does not refuse the entry.
\<close>

theorem overlayLookup_both:
  assumes up: "upper (overlays s parent) = Some pu"
    and ufound: "Lookup (ops s pu) nm = (Some cu, erru)" "no_failure erru" "Inode cu = Some ui"
    and nw: "\<not> whiteout_marked e s pu nm"
    and lo: "lower (overlays s parent) = Some pl"
    and lfound: "Lookup (ops s pl) nm = (Some cl, errl)" "no_failure errl" "Inode cl = Some li"
    and compat: "Type (StableAttr (inodes s ui)) = Type (StableAttr (inodes s li))
                 \<or> (IsDir (StableAttr (inodes s ui)) \<and> IsDir (StableAttr (inodes s li)))"
    and alloc: "ui \<noteq> li" "ui < next_inode s" "li < next_inode s"
    and acc: "\<forall>s1 lo1. newOverlayEntry_err e s1 (Some ui) lo1 True = None"
  shows "\<exists>s'. overlayLookup e parent inode nm s
             = (Return (Some (NewDirent (next_inode s) nm), True, None), s')
    \<and> StableAttr (inodes s' ui) = StableAttr (inodes s li)
    \<and> overlay (inodes s' (next_inode s)) = Some (next_overlay s)
    \<and> lowerExists (overlays s' (next_overlay s))
    \<and> upper (overlays s' (next_overlay s)) = Some ui
    \<and> (\<not> IsDir (StableAttr (inodes s li)) \<longrightarrow>
          lower (overlays s' (next_overlay s)) = None \<and> refs (inodes s' li) = refs (inodes s li))
    \<and> (IsDir (StableAttr (inodes s li)) \<longrightarrow>
          lower (overlays s' (next_overlay s)) = Some li
          \<and> refs (inodes s' li) = refs (inodes s li) + 1)"
proof -
  let ?s1 = "log_call (Call_Getxattr pu (XattrOverlayWhiteout e nm))
               (Dirent_DecRef cu (IncRef ui (log_call (Call_Lookup pu nm) s)))"
  let ?s2 = "Dirent_DecRef cl (IncRef li (log_call (Call_Lookup pl nm) ?s1))"
  have u: "overlayLookup_upper e (overlays s parent) inode nm s = (Next (Some ui, False), ?s1)"
    using upper_phase_found [OF up ufound] nw by simp
  have "Lookup (ops ?s1 pl) nm = (Some cl, errl)" using lfound by simp
  from lower_phase_found_both [OF lo this lfound(2,3), of ui] compat
  have l: "overlayLookup_lower (overlays s parent) nm (Some ui) ?s1 = (Next (Some li), ?s2)"
    by auto
  show ?thesis
  proof (cases "IsDir (StableAttr (inodes s li))")
    case True
    from acc have a: "newOverlayEntry_err e (steal_attributes ui li ?s2) (Some ui) (Some li) True = None"
      by blast
    show ?thesis
      using up True alloc
      by (simp add: overlayLookup_def u l merge_both entry_accepted [OF a])
  next
    case False
    from acc have a: "newOverlayEntry_err e (DecRef li (steal_attributes ui li ?s2)) (Some ui) None True = None"
      by blast
    show ?thesis
      using up False alloc
      by (simp add: overlayLookup_def u l merge_both entry_accepted [OF a])
  qed
qed

text \<open>On the small overlay: \<open>both\<close>, a regular file in each layer, on different devices.\<close>

theorem overlayLookup_both_witness:
  "\<exists>s'. overlayLookup demo_env 30 20 ''both'' demo_kernel
           = (Return (Some (NewDirent 40 ''both''), True, None), s')
     \<and> StableAttr (inodes s' 13) = StableAttr (demo_inode 14)
     \<and> DeviceID (StableAttr (demo_inode 13)) \<noteq> DeviceID (StableAttr (demo_inode 14))
     \<and> lowerExists (overlays s' 40) \<and> upper (overlays s' 40) = Some 13
     \<and> lower (overlays s' 40) = None \<and> refs (inodes s' 14) = 1"
  using overlayLookup_both [of demo_kernel 30 11 "''both''" "NewDirent 13 ''both''" None 13
      demo_env 12 "NewDirent 14 ''both''" None 14 20]
  by (auto simp: demo_state demo_upper_answers demo_lower_answers demo_whiteouts demo_accepts
      no_failure_def NewDirent_def demo_inode_def IsDir_def)

section \<open>C7: remove leaves a whiteout\<close>

text \<open>
  C7. Take a remove that succeeds, of a child whose entry has \<^verbatim>\<open>lowerExists = true\<close>;
  \<open>s1\<close> is the state after the copy-up of the parent, in which the parent has the upper
  directory \<open>pu\<close>. When the child has an upper Inode the remove first delegates to the upper
  directory, \<^verbatim>\<open>RemoveDirectory\<close> for a directory and \<^verbatim>\<open>Remove\<close> otherwise; when it has
  none it delegates no removal. In both cases the last call is the \<^verbatim>\<open>Setxattr\<close> of the
  whiteout on the upper directory, the whiteout is marked afterwards, and no other Inode's
  table has changed (the lower layer still has the file). A lookup of the name after the
  remove consults the upper directory only and finds nothing: it returns \<^verbatim>\<open>ENOENT\<close>, in
  the form of a negative Dirent if the upper layer itself answers with a negative Dirent,
  which it does not after a removal it has carried out. For a child without an upper Inode
  the upper directory is taken to hold no Inode under the name.
\<close>

theorem overlayRemove_whiteout:
  assumes cu: "copyUpLockedForRename e parent s = (Return None, s1)"
    and ci: "Inode child = Some ci" "overlay (inodes s1 ci) = Some co"
    and le: "lowerExists (overlays s1 co)"
    and pu: "upper (overlays s1 ov) = Some pu"
    and ok: "overlayRemove e ov parent child s = (Return None, s3)"
    and cons: "upper (overlays s1 co) = None \<longrightarrow> found_nothing (Lookup (ops s1 pu) (name child))"
  shows "calls s3 = calls s1
           @ (case upper (overlays s1 co) of
                None \<Rightarrow> []
              | Some cu \<Rightarrow> [if Type (StableAttr (inodes s1 ci)) = Directory
                          then Call_RemoveDirectory pu (name child)
                          else Call_Remove pu (name child)])
           @ [Call_Setxattr pu (XattrOverlayWhiteout e (name child)) ''y'']
    \<and> whiteout_marked e s3 pu (name child)
    \<and> (\<forall>l. l \<noteq> pu \<longrightarrow> ops s3 l = ops s1 l)
    \<and> (\<exists>s4. overlayLookup e ov inode (name child) s3
               = (Return (if upper_negative s3 (overlays s3 ov) (name child)
                          then (Some (NewNegativeDirent (name child)), False, None)
                          else (None, False, Some ENOENT)), s4)
             \<and> filter is_Lookup (calls s4)
                 = filter is_Lookup (calls s3) @ [Call_Lookup pu (name child)])
    \<and> (upper (overlays s1 co) \<noteq> None \<longrightarrow> \<not> upper_negative s3 (overlays s3 ov) (name child))"
proof -
  from overlayRemove_steps [OF cu ci le pu ok] obtain s2 where
    rm: "if upper (overlays s1 co) = None then s2 = s1
         else if Type (StableAttr (inodes s1 ci)) = Directory
              then Inode_RemoveDirectory pu (name child) s1 = (None, s2)
              else Inode_Remove pu (name child) s1 = (None, s2)"
    and sx: "Inode_Setxattr pu (XattrOverlayWhiteout e (name child)) ''y'' s2 = (None, s3)"
    by blast
  have s2: "calls s2 = calls s1
           @ (case upper (overlays s1 co) of
                None \<Rightarrow> []
              | Some cu \<Rightarrow> [if Type (StableAttr (inodes s1 ci)) = Directory
                          then Call_RemoveDirectory pu (name child)
                          else Call_Remove pu (name child)])"
    "overlays s2 = overlays s1" "\<forall>l. l \<noteq> pu \<longrightarrow> ops s2 l = ops s1 l"
    "found_nothing (Lookup (ops s2 pu) (name child))"
    "upper (overlays s1 co) \<noteq> None \<longrightarrow> \<not> found_negative (Lookup (ops s2 pu) (name child))"
    using rm cons
    by (auto simp: Remove_ok RemoveDirectory_ok found_nothing_def found_negative_def no_failure_def
        split: if_splits)
  have c: "calls s3 = calls s2 @ [Call_Setxattr pu (XattrOverlayWhiteout e (name child)) ''y'']"
    and w: "whiteout_marked e s3 pu (name child)"
    and l: "Lookup (ops s3 pu) = Lookup (ops s2 pu)"
    and o: "overlays s3 = overlays s2"
    and f: "\<forall>l. l \<noteq> pu \<longrightarrow> ops s3 l = ops s2 l"
    using Setxattr_ok [OF sx] by (simp_all add: whiteout_marked_def)
  have up3: "upper (overlays s3 ov) = Some pu" using pu o s2(2) by simp
  have fn3: "found_nothing (Lookup (ops s3 pu) (name child))" using s2(4) l by simp
  have un: "upper_negative s3 (overlays s3 ov) (name child)
              = found_negative (Lookup (ops s3 pu) (name child))"
    using up3 by (simp add: upper_negative_def)
  from whiteout_absent_result [OF up3 w fn3, of inode] un
  have look: "\<exists>s4. overlayLookup e ov inode (name child) s3
               = (Return (if upper_negative s3 (overlays s3 ov) (name child)
                          then (Some (NewNegativeDirent (name child)), False, None)
                          else (None, False, Some ENOENT)), s4)
             \<and> filter is_Lookup (calls s4)
                 = filter is_Lookup (calls s3) @ [Call_Lookup pu (name child)]"
    by simp
  show ?thesis
    using s2(1,3,5) c w f look un l by simp
qed

text \<open>
  On the small overlay: the remove of \<open>low\<close>, which has no upper Inode, and the remove of
  \<open>both\<close>, which has one and is a regular file.
\<close>

theorem overlayRemove_whiteout_witness:
  "fst (overlayRemove demo_env 30 (NewDirent 20 ''root'') (NewDirent 21 ''low'') demo_kernel)
     = Return None
   \<and> calls (snd (overlayRemove demo_env 30 (NewDirent 20 ''root'') (NewDirent 21 ''low'')
                  demo_kernel))
       = [Call_copyUp (NewDirent 20 ''root''),
          Call_Setxattr 11 ''trusted.overlay.whiteout.low'' ''y'']
   \<and> fst (overlayLookup demo_env 30 20 ''low''
            (snd (overlayRemove demo_env 30 (NewDirent 20 ''root'') (NewDirent 21 ''low'')
                    demo_kernel)))
       = Return (None, False, Some ENOENT)
   \<and> Lookup (ops (snd (overlayRemove demo_env 30 (NewDirent 20 ''root'') (NewDirent 21 ''low'')
                         demo_kernel)) 12) ''low''
       = (Some (NewDirent 16 ''low''), None)
   \<and> fst (overlayRemove demo_env 30 (NewDirent 20 ''root'') (NewDirent 22 ''both'') demo_kernel)
     = Return None
   \<and> calls (snd (overlayRemove demo_env 30 (NewDirent 20 ''root'') (NewDirent 22 ''both'')
                  demo_kernel))
       = [Call_copyUp (NewDirent 20 ''root''), Call_Remove 11 ''both'',
          Call_Setxattr 11 ''trusted.overlay.whiteout.both'' ''y'']
   \<and> fst (overlayLookup demo_env 30 20 ''both''
            (snd (overlayRemove demo_env 30 (NewDirent 20 ''root'') (NewDirent 22 ''both'')
                    demo_kernel)))
       = Return (None, False, Some ENOENT)
   \<and> Lookup (ops (snd (overlayRemove demo_env 30 (NewDirent 20 ''root'') (NewDirent 22 ''both'')
                         demo_kernel)) 12) ''both''
       = (Some (NewDirent 14 ''both''), None)"
proof -
  let ?P = "NewDirent 20 ''root''"
  let ?s1 = "log_call (Call_copyUp ?P) demo_kernel"
  have cu: "copyUpLockedForRename demo_env ?P demo_kernel = (Return None, ?s1)"
    by (simp add: copyUpLockedForRename_def NewDirent_def demo_defs)
  have pu: "upper (overlays ?s1 30) = Some 11" by (simp add: demo_defs)
  have low: "fst (overlayRemove demo_env 30 ?P (NewDirent 21 ''low'') demo_kernel) = Return None
   \<and> calls (snd (overlayRemove demo_env 30 ?P (NewDirent 21 ''low'') demo_kernel))
       = [Call_copyUp ?P, Call_Setxattr 11 ''trusted.overlay.whiteout.low'' ''y'']
   \<and> fst (overlayLookup demo_env 30 20 ''low''
            (snd (overlayRemove demo_env 30 ?P (NewDirent 21 ''low'') demo_kernel)))
       = Return (None, False, Some ENOENT)
   \<and> Lookup (ops (snd (overlayRemove demo_env 30 ?P (NewDirent 21 ''low'') demo_kernel)) 12) ''low''
       = (Some (NewDirent 16 ''low''), None)"
  proof -
    let ?C = "NewDirent 21 ''low''"
    let ?s3 = "snd (overlayRemove demo_env 30 ?P ?C demo_kernel)"
    have ci: "Inode ?C = Some 21" "overlay (inodes ?s1 21) = Some 31"
      by (simp_all add: NewDirent_def demo_defs)
    have le: "lowerExists (overlays ?s1 31)" by (simp add: demo_defs)
    have f: "fst (overlayRemove demo_env 30 ?P ?C demo_kernel) = Return None"
      by (simp add: remove_defs demo_defs)
    then have ok: "overlayRemove demo_env 30 ?P ?C demo_kernel = (Return None, ?s3)"
      by (simp add: prod_eq_iff)
    have cons: "upper (overlays ?s1 31) = None
        \<longrightarrow> found_nothing (Lookup (ops ?s1 11) (name ?C))"
      by (simp add: found_nothing_def no_failure_def NewDirent_def demo_defs)
    have un: "\<not> upper_negative ?s3 (overlays ?s3 30) ''low''"
      by (simp add: upper_negative_def found_negative_def remove_defs demo_defs)
    have lo: "Lookup (ops ?s3 12) ''low'' = (Some (NewDirent 16 ''low''), None)"
      by (simp add: remove_defs demo_defs)
    have nm: "name ?C = ''low''" by (simp add: NewDirent_def)
    show ?thesis
      using overlayRemove_whiteout [OF cu ci le pu ok cons, of 20] f un lo
      by (auto simp: nm XattrOverlayWhiteout_def demo_env_def demo_state)
  qed
  have both: "fst (overlayRemove demo_env 30 ?P (NewDirent 22 ''both'') demo_kernel) = Return None
   \<and> calls (snd (overlayRemove demo_env 30 ?P (NewDirent 22 ''both'') demo_kernel))
       = [Call_copyUp ?P, Call_Remove 11 ''both'',
          Call_Setxattr 11 ''trusted.overlay.whiteout.both'' ''y'']
   \<and> fst (overlayLookup demo_env 30 20 ''both''
            (snd (overlayRemove demo_env 30 ?P (NewDirent 22 ''both'') demo_kernel)))
       = Return (None, False, Some ENOENT)
   \<and> Lookup (ops (snd (overlayRemove demo_env 30 ?P (NewDirent 22 ''both'') demo_kernel)) 12) ''both''
       = (Some (NewDirent 14 ''both''), None)"
  proof -
    let ?C = "NewDirent 22 ''both''"
    let ?s3 = "snd (overlayRemove demo_env 30 ?P ?C demo_kernel)"
    have ci: "Inode ?C = Some 22" "overlay (inodes ?s1 22) = Some 32"
      by (simp_all add: NewDirent_def demo_defs)
    have le: "lowerExists (overlays ?s1 32)" by (simp add: demo_defs)
    have f: "fst (overlayRemove demo_env 30 ?P ?C demo_kernel) = Return None"
      by (simp add: remove_defs demo_defs)
    then have ok: "overlayRemove demo_env 30 ?P ?C demo_kernel = (Return None, ?s3)"
      by (simp add: prod_eq_iff)
    have cons: "upper (overlays ?s1 32) = None
        \<longrightarrow> found_nothing (Lookup (ops ?s1 11) (name ?C))"
      by (simp add: demo_defs)
    have up: "upper (overlays ?s1 32) = Some 13" "Type (StableAttr (inodes ?s1 22)) \<noteq> Directory"
      by (simp_all add: demo_defs)
    have lo: "Lookup (ops ?s3 12) ''both'' = (Some (NewDirent 14 ''both''), None)"
      by (simp add: remove_defs demo_defs)
    have nm: "name ?C = ''both''" by (simp add: NewDirent_def)
    show ?thesis
      using overlayRemove_whiteout [OF cu ci le pu ok cons, of 20] f lo up
      by (auto simp: nm XattrOverlayWhiteout_def demo_env_def demo_state)
  qed
  from low both show ?thesis by simp
qed

section \<open>C8: the permission check\<close>

text \<open>
  C8, as the code has it. With an upper Inode the requested mask goes to the upper layer
  unchanged. Without one, the mask that goes to the lower layer never asks for write, asks
  for read when the request asked for read or for write, and asks for execute as the request
  did: read is forced on only when write was requested.
\<close>

theorem overlayCheck_delegates:
  "(upper (overlays s ov) = Some u \<longrightarrow>
      overlayCheck ov p s = (Return (check (ops s u) p), log_call (Call_check u p) s))
   \<and> (upper (overlays s ov) = None \<and> lower (overlays s ov) = Some l \<longrightarrow>
      overlayCheck ov p s =
        (Return (check (ops s l)
                   \<lparr>Read = (Read p \<or> Write p), Write = False, Execute = Execute p\<rparr>),
         log_call (Call_check l
                     \<lparr>Read = (Read p \<or> Write p), Write = False, Execute = Execute p\<rparr>) s))"
proof -
  have m: "(if Write p then p\<lparr>Write := False, Read := True\<rparr> else p)
           = \<lparr>Read = (Read p \<or> Write p), Write = False, Execute = Execute p\<rparr>"
    by (cases p) simp
  show ?thesis
    unfolding overlayCheck_def Inode_check_def Let_def m by simp
qed

text \<open>On the small overlay: a write request on the root (entry 30) and on \<open>low\<close> (entry 31).\<close>

theorem overlayCheck_delegates_witness:
  "overlayCheck 30 \<lparr>Read = False, Write = True, Execute = False\<rparr> demo_kernel
     = (Return None,
        log_call (Call_check 11 \<lparr>Read = False, Write = True, Execute = False\<rparr>) demo_kernel)
   \<and> overlayCheck 31 \<lparr>Read = False, Write = True, Execute = False\<rparr> demo_kernel
     = (Return None,
        log_call (Call_check 16 \<lparr>Read = True, Write = False, Execute = False\<rparr>) demo_kernel)"
  using overlayCheck_delegates
      [of demo_kernel 30 11 "\<lparr>Read = False, Write = True, Execute = False\<rparr>" 16]
    overlayCheck_delegates
      [of demo_kernel 31 11 "\<lparr>Read = False, Write = True, Execute = False\<rparr>" 16]
  by (simp add: demo_defs)

text \<open>
  C8 as it is stated fails for a request that asks for neither read nor write: on the entry
  of \<open>low\<close>, which has no upper Inode, the request for execute alone reaches the lower
  Inode unchanged, with read off.
\<close>

theorem overlayCheck_read_not_forced:
  "upper (overlays demo_kernel 31) = None
   \<and> lower (overlays demo_kernel 31) = Some 16
   \<and> calls (snd (overlayCheck 31 \<lparr>Read = False, Write = False, Execute = True\<rparr> demo_kernel))
       = [Call_check 16 \<lparr>Read = False, Write = False, Execute = True\<rparr>]"
  by (simp add: demo_defs overlayCheck_def Inode_check_def log_call_def)

section \<open>C9: violations of the invariant are fatal\<close>

text \<open>
  C9. \<^verbatim>\<open>overlayLookup\<close> on a parent entry with neither an upper nor a lower Inode panics,
  and leaves the state as it was; \<^verbatim>\<open>Revalidate\<close> panics when the child is not an overlay
  Inode, and when the parent is not an overlay Inode.
\<close>

theorem invariant_violations_panic:
  "(upper (overlays s ov) = None \<and> lower (overlays s ov) = None \<longrightarrow>
      overlayLookup e ov inode nm s = (Panic ''invalid overlayEntry, needs at least one Inode'', s))
   \<and> (overlay (inodes s child) = None \<longrightarrow>
      Revalidate m s nm parent child
        = Panic ''overlay cannot revalidate inode that is not an overlay'')
   \<and> (overlay (inodes s parent) = None \<longrightarrow> (\<exists>msg. Revalidate m s nm parent child = Panic msg))"
  by (auto simp: overlayLookup_def Revalidate_def split: option.splits)

text \<open>
  On the small overlay: entry 33 has neither Inode; Inodes 16 and 12 are not overlay Inodes.
\<close>

theorem invariant_violations_panic_witness:
  "overlayLookup demo_env 33 20 ''low'' demo_kernel
     = (Panic ''invalid overlayEntry, needs at least one Inode'', demo_kernel)
   \<and> Revalidate demo_mount demo_kernel ''low'' 20 16
     = Panic ''overlay cannot revalidate inode that is not an overlay''
   \<and> (\<exists>msg. Revalidate demo_mount demo_kernel ''low'' 12 21 = Panic msg)"
  using invariant_violations_panic [of demo_kernel 33 demo_env 20 "''low''" 16 demo_mount 20]
    invariant_violations_panic [of demo_kernel 33 demo_env 20 "''low''" 21 demo_mount 12]
  by (simp add: demo_defs)

section \<open>C10: revalidation\<close>

text \<open>
  C10, as the code has it. For an overlay child with an overlay parent: when the child has
  no upper Inode, \<^verbatim>\<open>Revalidate\<close> returns false, unless the child has a lower Inode that
  the lower mount asks to revalidate, in which case it panics; it never returns true. When
  the child has an upper Inode and the lower mount does not ask to revalidate a lower Inode
  of the child, the result is the answer of the upper mount.
\<close>

theorem Revalidate_lower_only:
  "overlay (inodes s child) = Some co \<Longrightarrow> overlay (inodes s parent) = Some po \<Longrightarrow>
   (upper (overlays s co) = None \<longrightarrow>
      Revalidate m s nm parent child =
        (if lower (overlays s co) \<noteq> None
            \<and> MS_Revalidate (lower_msrc m) nm (lower (overlays s po)) (lower (overlays s co))
         then Panic ''an overlay cannot revalidate file objects from the lower fs''
         else Return False))
   \<and> (upper (overlays s co) \<noteq> None
        \<and> (lower (overlays s co) = None
            \<or> \<not> MS_Revalidate (lower_msrc m) nm (lower (overlays s po)) (lower (overlays s co)))
      \<longrightarrow> Revalidate m s nm parent child =
            Return (MS_Revalidate (upper_msrc m) nm (upper (overlays s po)) (upper (overlays s co))))"
  by (auto simp: Revalidate_def)

text \<open>On the small overlay: \<open>low\<close> (Inode 21, no upper Inode) and \<open>both\<close> (Inode 22).\<close>

theorem Revalidate_lower_only_witness:
  "Revalidate demo_mount demo_kernel ''low'' 20 21 = Return False
   \<and> Revalidate demo_mount demo_kernel ''both'' 20 22 = Return True"
  using Revalidate_lower_only [of demo_kernel 21 31 20 30 demo_mount "''low''"]
    Revalidate_lower_only [of demo_kernel 22 32 20 30 demo_mount "''both''"]
  by (simp add: demo_defs demo_mount_def)

text \<open>
  C10 as it is stated fails when the lower mount asks to revalidate: for \<open>low\<close>, which has
  no upper Inode, \<^verbatim>\<open>Revalidate\<close> panics and returns nothing.
\<close>

theorem Revalidate_lower_only_panics:
  "overlay (inodes demo_kernel 21) = Some 31
   \<and> upper (overlays demo_kernel 31) = None
   \<and> Revalidate demo_mount_lower_revalidates demo_kernel ''low'' 20 21
       = Panic ''an overlay cannot revalidate file objects from the lower fs''"
  by (simp add: demo_defs demo_mount_lower_revalidates_def Revalidate_def)

end
